theory Spec2Isabelle
  imports Main "HOL-Library.Sublist"
begin

section \<open>Python values\<close>

text \<open>
  A value that is a \<open>str\<close> or \<open>None\<close> is a \<open>string option\<close>. A \<open>char\<close> stands for one
  character of a Python string, so \<open>length\<close> is Python's \<open>len\<close>. Python's truth test on
  such a value (\<open>if v\<close>, \<open>not v\<close>, \<open>v or w\<close>) is false for \<open>None\<close> and for the empty string.
\<close>

definition truthy :: "string option \<Rightarrow> bool" where
  "truthy v = (case v of None \<Rightarrow> False | Some s \<Rightarrow> s \<noteq> [])"

definition py_str :: "string option \<Rightarrow> string" where
  "py_str v = (case v of None \<Rightarrow> ''None'' | Some s \<Rightarrow> s)"

section \<open>Data model\<close>

type_synonym addr = nat

text \<open>class ChatPrompt: an object on the heap, referred to by its address.\<close>

record ChatPrompt =
  prompt :: "string option"
  parent_id :: "string option"
  message_id :: "string option"

text \<open>class State: the two prompts are references, the history a list of references.\<close>

record State =
  title :: "string option"
  conversation_id :: "string option"
  model_slug :: "string option"
  user_prompt :: addr
  chatgpt_prompt :: addr
  user_prompts :: "addr list"
  edit_index :: "int option"

text \<open>
  What the remote service sends. A message is
  \<open>{id, author?: {role}, role?, content: {parts}, metadata: {model_slug?}, end_turn?}\<close>;
  \<open>author\<close> holds \<open>author.role\<close> when the key \<open>author\<close> is there. The key \<open>end_turn\<close> is
  absent, or holds null, or holds a boolean. The keys that the interface of the service
  declares without a question mark are taken to be there; what the code does when an
  optional key is missing, or when \<open>parts\<close> is empty, is part of the model.
\<close>

datatype end_turn_field = absent | null | holds bool

record message =
  msg_id :: string
  author :: "string option"
  role :: "string option"
  parts :: "string list"
  metadata_model_slug :: "string option"
  end_turn :: end_turn_field

text \<open>One decoded event of a reply stream: \<open>{error, message, conversation_id}\<close>.\<close>

record event =
  error :: "string option"
  ev_message :: "message option"
  ev_conversation_id :: "string option"

text \<open>The exceptions the modelled code raises.\<close>

datatype exn =
    Exception_status int event
  | Exception_error string
  | Exception_text string
  | StopIteration
  | IndexError
  | KeyError string
  | TypeError
  | AttributeError

text \<open>\<open>xs[i]\<close> and \<open>xs[:i]\<close> on a Python list; a negative index counts from the end.\<close>

definition py_index :: "'a list \<Rightarrow> int \<Rightarrow> exn + 'a" where
  "py_index xs i =
     (if 0 \<le> i \<and> i < int (length xs) then Inr (xs ! nat i)
      else if i < 0 \<and> - int (length xs) \<le> i then Inr (xs ! nat (int (length xs) + i))
      else Inl IndexError)"

definition py_slice_to :: "'a list \<Rightarrow> int \<Rightarrow> 'a list" where
  "py_slice_to xs i = (if i < 0 then take (nat (int (length xs) + i)) xs else take (nat i) xs)"

text \<open>One node of the remote conversation tree: \<open>{id, parent?, message}\<close>.\<close>

record node =
  node_id :: string
  parent :: "string option"
  node_message :: "message option"

record conversation =
  conv_title :: string
  current_node :: string
  mapping :: "string \<Rightarrow> node option"

section \<open>The collaborators\<close>

text \<open>Everything written to the terminal, in order.\<close>

datatype out =
    Console_info string
  | Console_info_b string
  | Console_info_bh string
  | Console_success string
  | Console_success_end string string
  | Console_success_b string
  | Console_error string
  | Console_debug string
  | Console_debug_h string
  | Console_debug_bh string
  | print string
  | Prompt_ask string

text \<open>The requests made to the remote service, in order.\<close>

datatype call =
    call_get_conversation "string option" "string option"
  | call_talk string "string option" "string option" "string option" "string option" "string option"
  | call_regenerate_reply "string option" "string option" "string option" "string option"
      "string option" "string option"
  | call_goon "string option" "string option" "string option" "string option"
  | call_gen_conversation_title "string option" "string option" "string option" "string option"
  | call_set_conversation_title "string option" string "string option"

text \<open>
  The client \<open>self.chatgpt\<close>: what each request answers. The three generating requests
  answer \<open>(status, _, generator)\<close>; the generator is the list of events it will yield.
\<close>

record chatgpt =
  get_conversation :: "string option \<Rightarrow> string option \<Rightarrow> conversation"
  talk :: "string \<Rightarrow> string option \<Rightarrow> string option \<Rightarrow> string option \<Rightarrow> string option
             \<Rightarrow> string option \<Rightarrow> int \<times> event list"
  regenerate_reply :: "string option \<Rightarrow> string option \<Rightarrow> string option \<Rightarrow> string option
             \<Rightarrow> string option \<Rightarrow> string option \<Rightarrow> int \<times> event list"
  goon :: "string option \<Rightarrow> string option \<Rightarrow> string option \<Rightarrow> string option \<Rightarrow> int \<times> event list"
  gen_conversation_title :: "string option \<Rightarrow> string option \<Rightarrow> string option \<Rightarrow> string option
             \<Rightarrow> string"
  set_conversation_title :: "string option \<Rightarrow> string \<Rightarrow> string option \<Rightarrow> bool"

text \<open>
  The surroundings that the program does not change: the client, and the identifiers that
  \<open>uuid.uuid4()\<close> hands out, the n-th call returning \<open>uuid4 n\<close>.
\<close>

record env =
  api :: chatgpt
  uuid4 :: "nat \<Rightarrow> string"

text \<open>
  Everything the program changes: the fields of the ChatBot (\<open>state\<close>, \<open>token_key\<close>), the
  heap of ChatPrompt objects, the default arguments of \<open>State.__init__\<close> (two references,
  evaluated once when the class is defined), the number of identifiers drawn so far, the
  terminal and the log of requests.
\<close>

record world =
  state :: "State option"
  token_key :: "string option"
  heap :: "addr \<Rightarrow> ChatPrompt"
  next_addr :: addr
  State_defaults :: "addr \<times> addr"
  uuid_count :: nat
  console :: "out list"
  calls :: "call list"

definition say :: "out list \<Rightarrow> world \<Rightarrow> world" where
  "say os w = w\<lparr>console := console w @ os\<rparr>"

definition request :: "call \<Rightarrow> world \<Rightarrow> world" where
  "request c w = w\<lparr>calls := calls w @ [c]\<rparr>"

section \<open>ChatPrompt and State\<close>

definition gen_message_id :: "env \<Rightarrow> world \<Rightarrow> string \<times> world" where
  "gen_message_id E w = (uuid4 E (uuid_count w), w\<lparr>uuid_count := Suc (uuid_count w)\<rparr>)"

text \<open>\<open>v or self.gen_message_id()\<close>: an identifier is drawn only when \<open>v\<close> is false.\<close>

definition or_gen_message_id :: "env \<Rightarrow> string option \<Rightarrow> world \<Rightarrow> string option \<times> world" where
  "or_gen_message_id E v w =
     (if truthy v then (v, w) else (let (u, w') = gen_message_id E w in (Some u, w')))"

definition ChatPrompt_init ::
  "env \<Rightarrow> string option \<Rightarrow> string option \<Rightarrow> string option \<Rightarrow> world \<Rightarrow> addr \<times> world" where
  "ChatPrompt_init E text parent_id0 message_id0 w =
     (let (pid, w1) = or_gen_message_id E parent_id0 w;
          (mid, w2) = or_gen_message_id E message_id0 w1;
          a = next_addr w2
      in (a, w2\<lparr>heap := (heap w2)(a := \<lparr>prompt = text, parent_id = pid, message_id = mid\<rparr>),
                next_addr := Suc a\<rparr>))"

text \<open>
  \<open>State.__init__\<close>: an omitted \<open>user_prompt\<close> or \<open>chatgpt_prompt\<close> is the default object,
  the same one at every call.
\<close>

definition State_init ::
  "string option \<Rightarrow> string option \<Rightarrow> string option \<Rightarrow> addr option \<Rightarrow> addr option \<Rightarrow> world \<Rightarrow> State" where
  "State_init title0 conversation_id0 model_slug0 user_prompt0 chatgpt_prompt0 w =
     \<lparr>title = title0, conversation_id = conversation_id0, model_slug = model_slug0,
      user_prompt = (case user_prompt0 of None \<Rightarrow> fst (State_defaults w) | Some a \<Rightarrow> a),
      chatgpt_prompt = (case chatgpt_prompt0 of None \<Rightarrow> snd (State_defaults w) | Some a \<Rightarrow> a),
      user_prompts = [], edit_index = None\<rparr>"

text \<open>
  The world once the module is imported and a ChatBot is made: defining class State
  evaluates \<open>ChatPrompt()\<close> twice, for the two defaults.
\<close>

definition import_module :: "env \<Rightarrow> world" where
  "import_module E =
     (let w0 = \<lparr>state = None, token_key = None,
                heap = (\<lambda>_. \<lparr>prompt = None, parent_id = None, message_id = None\<rparr>),
                next_addr = 0, State_defaults = (0, 0), uuid_count = 0, console = [], calls = []\<rparr>;
          (a, w1) = ChatPrompt_init E None None None w0;
          (b, w2) = ChatPrompt_init E None None None w1
      in w2\<lparr>State_defaults := (a, b)\<rparr>)"

section \<open>ChatBot.__print_reply\<close>

text \<open>
  The body of the loop over the generator, for one event \<open>result\<close>, from the offset \<open>p\<close>.
  An exception leaves what was written before it.
\<close>

definition reply_event :: "event \<Rightarrow> nat \<Rightarrow> world \<Rightarrow> (exn + nat) \<times> world" where
  "reply_event result p w =
     (if truthy (error result) then (Inl (Exception_error (py_str (error result))), w)
      else case ev_message result of
        None \<Rightarrow> (Inl (Exception_text ''miss message property.''), w)
      | Some msg \<Rightarrow>
         (case author msg of
            None \<Rightarrow> (Inl (KeyError ''author''), w)
          | Some r \<Rightarrow>
             if r = ''assistant'' \<and> parts msg = [] then (Inl IndexError, w)
             else
               let text = (if r = ''assistant'' then Some (drop p (hd (parts msg))) else None);
                   p' = (case text of None \<Rightarrow> p | Some t \<Rightarrow> p + length t)
               in case state w of
                    None \<Rightarrow> (Inl AttributeError, w)
                  | Some st \<Rightarrow>
                     let st1 = st\<lparr>conversation_id := ev_conversation_id result\<rparr>;
                         w1 = w\<lparr>state := Some st1\<rparr>
                     in case parts msg of
                          [] \<Rightarrow> (Inl IndexError, w1)
                        | part0 # _ \<Rightarrow>
                           let c = chatgpt_prompt st1;
                               u = user_prompt st1;
                               h1 = (heap w1)(c := (heap w1 c)\<lparr>prompt := Some part0\<rparr>);
                               h2 = h1(c := (h1 c)\<lparr>parent_id := message_id (h1 u)\<rparr>);
                               h3 = h2(c := (h2 c)\<lparr>message_id := Some (msg_id msg)\<rparr>);
                               h4 = (if r = ''system''
                                     then h3(u := (h3 u)\<lparr>parent_id := Some (msg_id msg)\<rparr>)
                                     else h3);
                               w2 = w1\<lparr>heap := h4\<rparr>
                           in (Inr p',
                               case text of
                                 None \<Rightarrow> w2
                               | Some t \<Rightarrow> if t = [] then w2 else say [Console_success_end t ''''] w2)))"

fun reply_loop :: "event list \<Rightarrow> nat \<Rightarrow> world \<Rightarrow> (exn + nat) \<times> world" where
  "reply_loop [] p w = (Inr p, w)"
| "reply_loop (result # rest) p w =
     (case reply_event result p w of
        (Inl e, w') \<Rightarrow> (Inl e, w')
      | (Inr p', w') \<Rightarrow> reply_loop rest p' w')"

text \<open>
  \<open>raise Exception(status, next(generator))\<close>: on an exhausted generator \<open>next\<close> raises
  StopIteration itself.
\<close>

definition ChatBot_print_reply :: "int \<Rightarrow> event list \<Rightarrow> world \<Rightarrow> (exn + unit) \<times> world" where
  "ChatBot_print_reply status generator w =
     (if status \<noteq> 200 then
        (case generator of
           [] \<Rightarrow> (Inl StopIteration, w)
         | first # _ \<Rightarrow> (Inl (Exception_status status first), w))
      else case reply_loop generator 0 w of
             (Inl e, w') \<Rightarrow> (Inl e, w')
           | (Inr p, w') \<Rightarrow> (Inr (), say [print [CHR 0x0A]] w'))"

section \<open>ChatBot.__talk, __regenerate_reply, __continue\<close>

text \<open>
  \<open>__talk(prompt)\<close>, in the three blocks it is written in. First the new user prompt, a
  fresh object: with \<open>edit_index\<close> set (and not 0) it takes the parent of
  \<open>user_prompts[idx]\<close> and the history is cut to \<open>user_prompts[:idx]\<close>; otherwise its
  parent is the message id of the assistant prompt.
\<close>

definition talk_prepare :: "env \<Rightarrow> string \<Rightarrow> State \<Rightarrow> world \<Rightarrow> exn + State \<times> world" where
  "talk_prepare E text st w =
     (if edit_index st \<noteq> None \<and> edit_index st \<noteq> Some 0 then
        (let idx = the (edit_index st) - 1
         in case py_index (user_prompts st) idx of
              Inl e \<Rightarrow> Inl e
            | Inr old \<Rightarrow>
               let (a, w1) = ChatPrompt_init E (Some text) (parent_id (heap w old)) None w
               in Inr (st\<lparr>user_prompt := a,
                          user_prompts := py_slice_to (user_prompts st) idx,
                          edit_index := None\<rparr>, w1))
      else
        (let (a, w1) = ChatPrompt_init E (Some text) (message_id (heap w (chatgpt_prompt st))) None w
         in Inr (st\<lparr>user_prompt := a\<rparr>, w1)))"

text \<open>
  Last, once \<open>__print_reply\<close> has returned: the user prompt joins the history, and the
  first turn of a conversation asks the service for a title and takes it.
\<close>

definition talk_finish :: "env \<Rightarrow> bool \<Rightarrow> world \<Rightarrow> (exn + unit) \<times> world" where
  "talk_finish E first_prompt w3 =
     (case state w3 of
        None \<Rightarrow> (Inl AttributeError, w3)
      | Some st3 \<Rightarrow>
         let st4 = st3\<lparr>user_prompts := user_prompts st3 @ [user_prompt st3]\<rparr>;
             w4 = w3\<lparr>state := Some st4\<rparr>
         in if first_prompt then
              (let m = message_id (heap w4 (chatgpt_prompt st4));
                   new_title = gen_conversation_title (api E) (conversation_id st4)
                                 (model_slug st4) m (token_key w4);
                   w5 = request (call_gen_conversation_title (conversation_id st4)
                                   (model_slug st4) m (token_key w4)) w4
               in (Inr (),
                   say [Console_debug_bh (''#### Title generated: '' @ new_title)]
                     (w5\<lparr>state := Some (st4\<lparr>title := Some new_title\<rparr>)\<rparr>)))
            else (Inr (), w4))"

text \<open>
  In between, the request and the reply. An exception of \<open>__print_reply\<close> leaves the
  function before the history is extended.
\<close>

definition ChatBot_talk :: "env \<Rightarrow> string \<Rightarrow> world \<Rightarrow> (exn + unit) \<times> world" where
  "ChatBot_talk E text w0 =
     (let w = say [Console_success_b ''ChatGPT:''] w0
      in case state w of
           None \<Rightarrow> (Inl AttributeError, w)
         | Some st \<Rightarrow>
            let first_prompt = \<not> truthy (conversation_id st)
            in case talk_prepare E text st w of
                 Inl e \<Rightarrow> (Inl e, w)
               | Inr (st1, w1) \<Rightarrow>
                  let u = heap w1 (user_prompt st1);
                      (status, generator) =
                        talk (api E) text (model_slug st1) (message_id u) (parent_id u)
                          (conversation_id st1) (token_key w1);
                      w2 = request (call_talk text (model_slug st1) (message_id u) (parent_id u)
                                      (conversation_id st1) (token_key w1))
                             (w1\<lparr>state := Some st1\<rparr>)
                  in case ChatBot_print_reply status generator w2 of
                       (Inl e, w3) \<Rightarrow> (Inl e, w3)
                     | (Inr _, w3) \<Rightarrow> talk_finish E first_prompt w3)"

text \<open>
  \<open>__regenerate_reply(state)\<close> and \<open>__continue(state)\<close>: \<open>state\<close> is the argument (the
  command loop passes \<open>self.state\<close>); \<open>__print_reply\<close> writes to \<open>self.state\<close>.
\<close>

definition ChatBot_regenerate_reply :: "env \<Rightarrow> State \<Rightarrow> world \<Rightarrow> (exn + unit) \<times> world" where
  "ChatBot_regenerate_reply E st w =
     (if \<not> truthy (conversation_id st) then
        (Inr (), say [Console_error ''#### Conversation has not been created.''] w)
      else
        let u = heap w (user_prompt st);
            (status, generator) =
              regenerate_reply (api E) (prompt u) (model_slug st) (conversation_id st)
                (message_id u) (parent_id u) (token_key w);
            w1 = request (call_regenerate_reply (prompt u) (model_slug st) (conversation_id st)
                            (message_id u) (parent_id u) (token_key w)) w
        in ChatBot_print_reply status generator
             (say [print [], Console_success_b ''ChatGPT:''] w1))"

definition ChatBot_continue :: "env \<Rightarrow> State \<Rightarrow> world \<Rightarrow> (exn + unit) \<times> world" where
  "ChatBot_continue E st w =
     (if \<not> truthy (conversation_id st) then
        (Inr (), say [Console_error ''#### Conversation has not been created.''] w)
      else
        let m = message_id (heap w (chatgpt_prompt st));
            (status, generator) = goon (api E) (model_slug st) m (conversation_id st) (token_key w);
            w1 = request (call_goon (model_slug st) m (conversation_id st) (token_key w)) w
        in ChatBot_print_reply status generator
             (say [print [], Console_success_b ''ChatGPT:''] w1))"

section \<open>ChatBot.__set_conversation_title\<close>

text \<open>
  \<open>__set_conversation_title(state)\<close>; \<open>answer\<close> is what the user types at
  \<open>Prompt.ask('New title')\<close>. The function returns the argument as it leaves it.
\<close>

definition ChatBot_set_conversation_title ::
  "env \<Rightarrow> State \<Rightarrow> string \<Rightarrow> world \<Rightarrow> State \<times> world" where
  "ChatBot_set_conversation_title E st answer w =
     (if \<not> truthy (conversation_id st) then
        (st, say [Console_error ''#### Conversation has not been created.''] w)
      else
        let w1 = say [Prompt_ask ''New title''] w;
            new_title = answer
        in if length new_title > 64 then (st, say [Console_error ''#### Title too long.''] w1)
           else
             let w2 = request (call_set_conversation_title (conversation_id st) new_title
                                 (token_key w1)) w1
             in if set_conversation_title (api E) (conversation_id st) new_title (token_key w1)
                then (st\<lparr>title := Some new_title\<rparr>, say [Console_debug ''#### Set title success.''] w2)
                else (st, say [Console_error ''#### Set title failed.''] w2))"

section \<open>ChatBot.__load_conversation\<close>

text \<open>
  The walk from the current node along the parent links. The node without a parent ends
  the walk and is not put into the list. A missing key raises KeyError; a cycle of parent
  links never ends, which is the value \<open>None\<close>.
\<close>

partial_function (option) walk ::
  "(string \<Rightarrow> node option) \<Rightarrow> string \<Rightarrow> node list \<Rightarrow> (exn + node list) option" where
  "walk m current_node_id nodes =
     (case m current_node_id of
        None \<Rightarrow> Some (Inl (KeyError current_node_id))
      | Some n \<Rightarrow>
         (case parent n of
            None \<Rightarrow> Some (Inr nodes)
          | Some next_id \<Rightarrow>
             if next_id = [] then Some (Inr nodes) else walk m next_id (n # nodes)))"

declare walk.simps [code]

definition print_conversation_title :: "string \<Rightarrow> world \<Rightarrow> world" where
  "print_conversation_title t w =
     say [Console_info_bh (''==================== '' @ t @ '' ===================='')
         , Console_debug_h ''Double enter to send. Type /? for help.''] w"

text \<open>\<open>message['author']['role'] if 'author' in message else message['role']\<close>\<close>

definition role_of :: "message \<Rightarrow> exn + string" where
  "role_of msg =
     (case author msg of
        Some r \<Rightarrow> Inr r
      | None \<Rightarrow> (case role msg of None \<Rightarrow> Inl (KeyError ''role'') | Some r \<Rightarrow> Inr r))"

text \<open>
  The body of the loop over the nodes, for one node, with the flag \<open>merge\<close> as it stands;
  the result is the flag afterwards.
\<close>

definition load_node :: "env \<Rightarrow> node \<Rightarrow> bool \<Rightarrow> world \<Rightarrow> (exn + bool) \<times> world" where
  "load_node E n merge w =
     (case node_message n of
        None \<Rightarrow> (Inl TypeError, w)
      | Some msg \<Rightarrow>
         (case (case metadata_model_slug msg of
                  None \<Rightarrow> Inr w
                | Some slug \<Rightarrow>
                   (case state w of
                      None \<Rightarrow> Inl AttributeError
                    | Some st0 \<Rightarrow> Inr (w\<lparr>state := Some (st0\<lparr>model_slug := Some slug\<rparr>)\<rparr>))) of
            Inl e \<Rightarrow> (Inl e, w)
          | Inr w1 \<Rightarrow>
             (case role_of msg of
                Inl e \<Rightarrow> (Inl e, w1)
              | Inr r \<Rightarrow>
                 if r = ''user'' then
                   (case state w1 of
                      None \<Rightarrow> (Inl AttributeError, w1)
                    | Some st \<Rightarrow>
                       (case parts msg of
                          [] \<Rightarrow> (Inl IndexError, w1)
                        | part0 # _ \<Rightarrow>
                           let (a, w2) = ChatPrompt_init E (Some part0) (parent n) None w1;
                               w3 = say [Console_info_b ''You:'', Console_info part0]
                                      (w2\<lparr>state := Some (st\<lparr>user_prompts := user_prompts st @ [a]\<rparr>)\<rparr>);
                               w4 = w3\<lparr>heap := (heap w3)(user_prompt st :=
                                      \<lparr>prompt = Some part0, parent_id = parent n,
                                       message_id = Some (node_id n)\<rparr>)\<rparr>
                           in (Inr merge, if merge then w4 else say [print []] w4)))
                 else if r = ''assistant'' then
                   (case state w1 of
                      None \<Rightarrow> (Inl AttributeError, w1)
                    | Some st \<Rightarrow>
                       let w2 = (if merge then w1 else say [Console_success_b ''ChatGPT:''] w1)
                       in case parts msg of
                            [] \<Rightarrow> (Inl IndexError, w2)
                          | part0 # _ \<Rightarrow>
                             let w3 = say [Console_success part0] w2;
                                 merge' = (end_turn msg = null);
                                 w4 = w3\<lparr>heap := (heap w3)(chatgpt_prompt st :=
                                        \<lparr>prompt = Some part0, parent_id = parent n,
                                         message_id = Some (node_id n)\<rparr>)\<rparr>
                             in (Inr merge', if merge' then w4 else say [print []] w4))
                 else (Inr merge, w1))))"

fun load_nodes :: "env \<Rightarrow> node list \<Rightarrow> bool \<Rightarrow> world \<Rightarrow> (exn + bool) \<times> world" where
  "load_nodes E [] merge w = (Inr merge, w)"
| "load_nodes E (n # rest) merge w =
     (case load_node E n merge w of
        (Inl e, w') \<Rightarrow> (Inl e, w')
      | (Inr merge', w') \<Rightarrow> load_nodes E rest merge' w')"

definition ChatBot_load_conversation ::
  "env \<Rightarrow> string option \<Rightarrow> world \<Rightarrow> ((exn + unit) \<times> world) option" where
  "ChatBot_load_conversation E cid w =
     (if \<not> truthy cid then Some (Inr (), w)
      else
        let w1 = w\<lparr>state := Some (State_init None cid None None None w)\<rparr>;
            result = get_conversation (api E) cid (token_key w1);
            w2 = request (call_get_conversation cid (token_key w1)) w1
        in case walk (mapping result) (current_node result) [] of
             None \<Rightarrow> None
           | Some (Inl e) \<Rightarrow> Some (Inl e, w2)
           | Some (Inr nodes) \<Rightarrow>
              (case state w2 of
                 None \<Rightarrow> Some (Inl AttributeError, w2)
               | Some st \<Rightarrow>
                  let w3 = w2\<lparr>state := Some (st\<lparr>title := Some (conv_title result)\<rparr>)\<rparr>;
                      w4 = print_conversation_title (conv_title result) w3
                  in case load_nodes E nodes False w4 of
                       (Inl e, w5) \<Rightarrow> Some (Inl e, w5)
                     | (Inr _, w5) \<Rightarrow> Some (Inr (), w5)))"

section \<open>Notions used in the statements\<close>

text \<open>
  An event that the loop of \<open>__print_reply\<close> gets through: no error, a message, a role in
  \<open>author\<close> and a first part.
\<close>

definition ok_event :: "event \<Rightarrow> bool" where
  "ok_event ev =
     (\<not> truthy (error ev) \<and>
      (case ev_message ev of None \<Rightarrow> False | Some m \<Rightarrow> author m \<noteq> None \<and> parts m \<noteq> []))"

text \<open>The cumulative text of an assistant event, and those of a stream in order.\<close>

definition assistant_text :: "event \<Rightarrow> string option" where
  "assistant_text ev =
     (case ev_message ev of
        None \<Rightarrow> None
      | Some m \<Rightarrow>
         if author m = Some ''assistant'' then (case parts m of [] \<Rightarrow> None | t # _ \<Rightarrow> Some t)
         else None)"

definition assistant_texts :: "event list \<Rightarrow> string list" where
  "assistant_texts evs = List.map_filter assistant_text evs"

text \<open>The increments handed to the sink by \<open>Console.success(text, end='')\<close>, in order.\<close>

fun increments :: "out list \<Rightarrow> string list" where
  "increments [] = []"
| "increments (Console_success_end t e # os) = (t @ e) # increments os"
| "increments (_ # os) = increments os"

text \<open>
  What a stream with the assistant texts \<open>ts\<close> puts on the terminal from the offset \<open>p\<close>:
  for each text the part beyond the offset, when it is not empty.
\<close>

fun chunks :: "nat \<Rightarrow> string list \<Rightarrow> out list" where
  "chunks p [] = []"
| "chunks p (t # ts) =
     (if drop p t = [] then [] else [Console_success_end (drop p t) []]) @
     chunks (p + length (drop p t)) ts"

text \<open>The requests for a title among the requests made.\<close>

fun is_title_request :: "call \<Rightarrow> bool" where
  "is_title_request (call_gen_conversation_title _ _ _ _) = True"
| "is_title_request _ = False"

definition title_requests :: "call list \<Rightarrow> nat" where
  "title_requests cs = length (filter is_title_request cs)"

text \<open>The message id of a system event; the last of them is where the user prompt ends up.\<close>

definition system_id :: "event \<Rightarrow> string option" where
  "system_id ev =
     (case ev_message ev of
        None \<Rightarrow> None
      | Some m \<Rightarrow> if author m = Some ''system'' then Some (msg_id m) else None)"

text \<open>
  The nodes \<open>rs\<close>, from the leaf upwards, are the path that the walk follows from the key
  \<open>cur\<close>: each is found under the key its child names as parent, and the node above the
  last of them has no parent.
\<close>

fun chain :: "(string \<Rightarrow> node option) \<Rightarrow> string \<Rightarrow> node list \<Rightarrow> bool" where
  "chain m cur [] = (case m cur of None \<Rightarrow> False | Some r \<Rightarrow> \<not> truthy (parent r))"
| "chain m cur (n # rs) =
     (m cur = Some n \<and> (case parent n of None \<Rightarrow> False | Some p \<Rightarrow> p \<noteq> [] \<and> chain m p rs))"

definition is_user_node :: "node \<Rightarrow> bool" where
  "is_user_node n =
     (case node_message n of None \<Rightarrow> False | Some m \<Rightarrow> role_of m = Inr ''user'')"

text \<open>A node that the loop of the loader gets through.\<close>

definition ok_node :: "node \<Rightarrow> bool" where
  "ok_node n =
     (case node_message n of
        None \<Rightarrow> False
      | Some m \<Rightarrow>
         (case role_of m of
            Inl _ \<Rightarrow> False
          | Inr r \<Rightarrow> (r = ''user'' \<or> r = ''assistant'') \<longrightarrow> parts m \<noteq> []))"

definition node_text :: "node \<Rightarrow> string" where
  "node_text n =
     (case node_message n of
        None \<Rightarrow> []
      | Some m \<Rightarrow> (case parts m of [] \<Rightarrow> [] | t # _ \<Rightarrow> t))"

text \<open>The history of user turns as the state holds it: text and parent id of each entry.\<close>

definition history :: "world \<Rightarrow> (string option \<times> string option) list" where
  "history w =
     (case state w of
        None \<Rightarrow> []
      | Some st \<Rightarrow> map (\<lambda>a. (prompt (heap w a), parent_id (heap w a))) (user_prompts st))"

definition entry_of :: "node \<Rightarrow> string option \<times> string option" where
  "entry_of n = (Some (node_text n), parent n)"

text \<open>
  The prompts of the state and the entries of its history are objects that exist, and no
  entry of the history is one of the two prompts of the state.
\<close>

definition separate :: "world \<Rightarrow> State \<Rightarrow> bool" where
  "separate w st =
     (state w = Some st \<and> user_prompt st < next_addr w \<and> chatgpt_prompt st < next_addr w \<and>
      (\<forall>a \<in> set (user_prompts st).
         a < next_addr w \<and> a \<noteq> user_prompt st \<and> a \<noteq> chatgpt_prompt st))"

section \<open>Example inputs\<close>

definition mk_message :: "string \<Rightarrow> string \<Rightarrow> string \<Rightarrow> message" where
  "mk_message r i t =
     \<lparr>msg_id = i, author = Some r, role = None, parts = [t], metadata_model_slug = None,
      end_turn = absent\<rparr>"

definition mk_event :: "string \<Rightarrow> string \<Rightarrow> string \<Rightarrow> event" where
  "mk_event r i t =
     \<lparr>error = None, ev_message = Some (mk_message r i t), ev_conversation_id = Some ''conv-1''\<rparr>"

definition ex_stream :: "event list" where
  "ex_stream = [mk_event ''system'' ''sys-1'' [], mk_event ''assistant'' ''msg-1'' ''He'',
                mk_event ''assistant'' ''msg-1'' ''Hello'']"

definition ex_n0 :: node where
  "ex_n0 = \<lparr>node_id = ''n0'', parent = None, node_message = None\<rparr>"

definition ex_n1 :: node where
  "ex_n1 = \<lparr>node_id = ''n1'', parent = Some ''n0'',
            node_message = Some (mk_message ''user'' ''n1'' ''Hi'')\<rparr>"

definition ex_n2 :: node where
  "ex_n2 = \<lparr>node_id = ''n2'', parent = Some ''n1'',
            node_message = Some (mk_message ''assistant'' ''n2'' ''Hello'')\<rparr>"

definition ex_conversation :: conversation where
  "ex_conversation =
     \<lparr>conv_title = ''Greeting'', current_node = ''n2'',
      mapping = map_of [(''n0'', ex_n0), (''n1'', ex_n1), (''n2'', ex_n2)]\<rparr>"

definition ex_api :: chatgpt where
  "ex_api =
     \<lparr>get_conversation = (\<lambda>_ _. ex_conversation),
      talk = (\<lambda>_ _ _ _ _ _. (200, ex_stream)),
      regenerate_reply = (\<lambda>_ _ _ _ _ _. (200, ex_stream)),
      goon = (\<lambda>_ _ _ _. (200, ex_stream)),
      gen_conversation_title = (\<lambda>_ _ _ _. ''Greeting''),
      set_conversation_title = (\<lambda>_ _ _. True)\<rparr>"

definition ex_env :: env where
  "ex_env = \<lparr>api = ex_api, uuid4 = (\<lambda>n. CHR ''u'' # replicate n CHR ''i'')\<rparr>"

text \<open>A new conversation (no conversation id yet), and one that the service knows.\<close>

definition ex_new :: State where
  "ex_new = State_init (Some ''New Chat'') None (Some ''model-1'') None None (import_module ex_env)"

definition ex_new_world :: world where
  "ex_new_world = (import_module ex_env)\<lparr>state := Some ex_new\<rparr>"

definition ex_old :: State where
  "ex_old = State_init (Some ''Greeting'') (Some ''conv-1'') (Some ''model-1'') None None
              (import_module ex_env)"

definition ex_old_world :: world where
  "ex_old_world = (import_module ex_env)\<lparr>state := Some ex_old\<rparr>"

text \<open>A conversation with one earlier user turn, chosen for editing.\<close>

definition ex_edit :: State where
  "ex_edit = ex_old\<lparr>user_prompts := [2], edit_index := Some 1\<rparr>"

definition ex_edit_world :: world where
  "ex_edit_world =
     (snd (ChatPrompt_init ex_env (Some ''Hi'') (Some ''root'') None (import_module ex_env)))
       \<lparr>state := Some ex_edit\<rparr>"

text \<open>A synthetic conversation whose root, the node without parent, is itself a user turn.\<close>

definition ex_root_question :: node where
  "ex_root_question =
     \<lparr>node_id = ''q1'', parent = None, node_message = Some (mk_message ''user'' ''q1'' ''Hi'')\<rparr>"

definition ex_answer :: node where
  "ex_answer =
     \<lparr>node_id = ''a1'', parent = Some ''q1'',
      node_message = Some (mk_message ''assistant'' ''a1'' ''Hello'')\<rparr>"

definition ex_rooted_env :: env where
  "ex_rooted_env =
     ex_env\<lparr>api := ex_api\<lparr>get_conversation :=
       (\<lambda>_ _. \<lparr>conv_title = ''Greeting'', current_node = ''a1'',
                mapping = map_of [(''q1'', ex_root_question), (''a1'', ex_answer)]\<rparr>)\<rparr>\<rparr>"

text \<open>An assistant turn that ends with \<open>end_turn\<close> null, and the user turn after it.\<close>

definition ex_soft_break :: node where
  "ex_soft_break =
     \<lparr>node_id = ''n1'', parent = Some ''n0'',
      node_message = Some ((mk_message ''assistant'' ''n1'' ''Part one'')\<lparr>end_turn := null\<rparr>)\<rparr>"

definition ex_question :: node where
  "ex_question =
     \<lparr>node_id = ''n2'', parent = Some ''n1'',
      node_message = Some (mk_message ''user'' ''n2'' ''Next question'')\<rparr>"

text \<open>A conversation with two earlier user turns, the second chosen for editing.\<close>

definition ex_edit2 :: State where
  "ex_edit2 = ex_old\<lparr>user_prompts := [2, 3], edit_index := Some 2\<rparr>"

definition ex_edit2_world :: world where
  "ex_edit2_world =
     (snd (ChatPrompt_init ex_env (Some ''More'') (Some ''msg-1'') None
        (snd (ChatPrompt_init ex_env (Some ''Hi'') (Some ''root'') None (import_module ex_env)))))
       \<lparr>state := Some ex_edit2\<rparr>"

text \<open>The assistant turn that answers \<open>ex_question\<close>.\<close>

definition ex_resumed :: node where
  "ex_resumed =
     \<lparr>node_id = ''n3'', parent = Some ''n2'',
      node_message = Some (mk_message ''assistant'' ''n3'' ''Part two'')\<rparr>"

section \<open>The reply stream\<close>

lemma increments_append: "increments (xs @ ys) = increments xs @ increments ys"
  by (induction xs rule: increments.induct) simp_all

lemma reply_event_assistant:
  assumes "ok_event ev" "state w = Some st" "assistant_text ev = Some t"
  shows "\<exists>w'. reply_event ev p w = (Inr (p + length (drop p t)), w') \<and> state w' \<noteq> None \<and>
           concat (increments (console w')) = concat (increments (console w)) @ drop p t"
  using assms
  by (auto simp: ok_event_def assistant_text_def reply_event_def Let_def say_def increments_append
           split: option.splits list.splits if_splits)

lemma reply_event_other:
  assumes "ok_event ev" "state w = Some st" "assistant_text ev = None"
  shows "\<exists>w'. reply_event ev p w = (Inr p, w') \<and> state w' \<noteq> None \<and> console w' = console w"
  using assms
  by (auto simp: ok_event_def assistant_text_def reply_event_def Let_def say_def
           split: option.splits list.splits if_splits)

text \<open>
  The invariant of the loop: \<open>p\<close> is the length of the last assistant text \<open>t0\<close> seen, and
  what the rest of the stream emits is the rest of the final text beyond \<open>p\<close>.
\<close>

lemma reply_loop_emits:
  assumes "list_all ok_event evs" "state w \<noteq> None" "sorted_wrt prefix (t0 # assistant_texts evs)"
    "p = length t0"
  shows "\<exists>p' w'. reply_loop evs p w = (Inr p', w') \<and>
           concat (increments (console w')) =
             concat (increments (console w)) @ drop p (last (t0 # assistant_texts evs))"
  using assms
proof (induction evs arbitrary: p w t0)
  case Nil
  then show ?case by (simp add: assistant_texts_def)
next
  case (Cons ev evs)
  from Cons.prems obtain st where st: "state w = Some st" by auto
  from Cons.prems have ok: "ok_event ev" and oks: "list_all ok_event evs" by simp_all
  show ?case
  proof (cases "assistant_text ev")
    case None
    from reply_event_other[OF ok st None, of p]
    obtain w1 where w1: "reply_event ev p w = (Inr p, w1)" "state w1 \<noteq> None" "console w1 = console w"
      by blast
    from None have texts: "assistant_texts (ev # evs) = assistant_texts evs"
      by (simp add: assistant_texts_def map_filter_simps)
    from Cons.IH[OF oks w1(2), of t0 p] Cons.prems texts w1 show ?thesis
      by auto
  next
    case (Some t)
    from reply_event_assistant[OF ok st Some, of p]
    obtain w1 where w1: "reply_event ev p w = (Inr (p + length (drop p t)), w1)" "state w1 \<noteq> None"
      "concat (increments (console w1)) = concat (increments (console w)) @ drop p t"
      by blast
    from Some have texts: "assistant_texts (ev # evs) = t # assistant_texts evs"
      by (simp add: assistant_texts_def map_filter_simps)
    from Cons.prems texts have pre: "prefix t0 t" and srt: "sorted_wrt prefix (t # assistant_texts evs)"
      by simp_all
    from pre Cons.prems have len: "p + length (drop p t) = length t"
      by (auto simp: prefix_def)
    from srt have "prefix t (last (t # assistant_texts evs))"
      by (cases "assistant_texts evs = []") auto
    then obtain z where z: "last (t # assistant_texts evs) = t @ z"
      by (auto simp: prefix_def)
    from pre Cons.prems have ple: "p \<le> length t" by (auto simp: prefix_def)
    from Cons.IH[OF oks w1(2) srt, of "length t"]
    obtain p' w' where r: "reply_loop evs (length t) w1 = (Inr p', w')"
      "concat (increments (console w')) =
         concat (increments (console w1)) @ drop (length t) (last (t # assistant_texts evs))"
      by auto
    have "last (t0 # assistant_texts (ev # evs)) = t @ z"
      using texts z by simp
    with r w1 len z ple show ?thesis by simp
  qed
qed

text \<open>
  C1. Delta reconstruction. Take a stream with status 200 whose events all carry a
  message with a role and a first part and no error, and whose assistant texts, in order,
  are each a prefix of the next, the last one being \<open>S\<close> (the empty string when there is no
  assistant event). Then \<open>__print_reply\<close> returns normally, and the increments it hands to
  the sink, concatenated, are exactly \<open>S\<close>: nothing twice, nothing left out, for a stream
  of any length.
\<close>

theorem delta_reconstruction:
  assumes "state w \<noteq> None" and "list_all ok_event evs"
    and "sorted_wrt prefix (assistant_texts evs)"
    and "last ([] # assistant_texts evs) = S"
  shows "fst (ChatBot_print_reply 200 evs w) = Inr () \<and>
         concat (increments (console (snd (ChatBot_print_reply 200 evs w)))) =
           concat (increments (console w)) @ S"
proof -
  from assms have "sorted_wrt prefix ([] # assistant_texts evs)" by simp
  from reply_loop_emits[OF assms(2) assms(1) this, of 0] assms(4)
  obtain p' w' where "reply_loop evs 0 w = (Inr p', w')"
    "concat (increments (console w')) = concat (increments (console w)) @ S"
    by auto
  then show ?thesis
    by (simp add: ChatBot_print_reply_def say_def increments_append)
qed

lemma ex_stream_texts: "assistant_texts ex_stream = [''He'', ''Hello'']"
  by (simp add: assistant_texts_def ex_stream_def mk_event_def mk_message_def assistant_text_def
        map_filter_simps)

lemma ex_stream_ok: "list_all ok_event ex_stream"
  by (simp add: ex_stream_def mk_event_def mk_message_def ok_event_def truthy_def)

theorem delta_reconstruction_witness:
  "state ex_new_world \<noteq> None \<and> list_all ok_event ex_stream \<and>
   sorted_wrt prefix (assistant_texts ex_stream) \<and>
   last ([] # assistant_texts ex_stream) = ''Hello'' \<and>
   fst (ChatBot_print_reply 200 ex_stream ex_new_world) = Inr () \<and>
   concat (increments (console (snd (ChatBot_print_reply 200 ex_stream ex_new_world)))) =
     concat (increments (console ex_new_world)) @ ''Hello''"
proof -
  have h1: "state ex_new_world \<noteq> None" by (simp add: ex_new_world_def)
  have h3: "sorted_wrt prefix (assistant_texts ex_stream)" by (simp add: ex_stream_texts)
  have h4: "last ([] # assistant_texts ex_stream) = ''Hello''" by (simp add: ex_stream_texts)
  from delta_reconstruction[OF h1 ex_stream_ok h3 h4] h1 ex_stream_ok h3 h4
  show ?thesis by blast
qed

text \<open>
  C6. A status other than 200. \<open>__print_reply\<close> raises at once, with the status and the
  first event of the stream in the exception, and the world is the one it was called in:
  no field of the state, no prompt object, nothing on the terminal has changed and no
  later event was read. (A stream with no event at all makes \<open>next\<close> raise StopIteration,
  the world unchanged as well.)
\<close>

theorem status_not_200_fails_unchanged:
  assumes "status \<noteq> 200"
  shows "ChatBot_print_reply status generator w =
           (Inl (case generator of
                   [] \<Rightarrow> StopIteration
                 | first # _ \<Rightarrow> Exception_status status first), w)"
  using assms by (simp add: ChatBot_print_reply_def split: list.splits)

theorem status_not_200_fails_unchanged_witness:
  "(404::int) \<noteq> 200 \<and>
   ChatBot_print_reply 404 ex_stream ex_old_world =
     (Inl (Exception_status 404 (mk_event ''system'' ''sys-1'' [])), ex_old_world)"
  using status_not_200_fails_unchanged[of 404 ex_stream ex_old_world]
  by (simp add: ex_stream_def)

section \<open>The guards\<close>

text \<open>
  C5. The precondition guard. On a state without a conversation id (\<open>None\<close> or empty),
  \<open>__regenerate_reply\<close> and \<open>__continue\<close> return normally, and the world afterwards is the
  world before with one error line more on the terminal: the state, the prompt objects and
  the log of requests are the same, so nothing was changed and nothing was asked of the
  service.
\<close>

theorem precondition_guard:
  assumes "\<not> truthy (conversation_id st)"
  shows "ChatBot_regenerate_reply E st w =
           (Inr (), w\<lparr>console := console w @
                       [Console_error ''#### Conversation has not been created.'']\<rparr>)
       \<and> ChatBot_continue E st w =
           (Inr (), w\<lparr>console := console w @
                       [Console_error ''#### Conversation has not been created.'']\<rparr>)"
  using assms by (simp add: ChatBot_regenerate_reply_def ChatBot_continue_def say_def)

lemma ex_new_conversation_id: "conversation_id ex_new = None"
  by (simp add: ex_new_def State_init_def)

theorem precondition_guard_witness:
  "\<not> truthy (conversation_id ex_new) \<and>
   ChatBot_regenerate_reply ex_env ex_new ex_new_world =
     (Inr (), ex_new_world\<lparr>console := console ex_new_world @
                [Console_error ''#### Conversation has not been created.'']\<rparr>) \<and>
   ChatBot_continue ex_env ex_new ex_new_world =
     (Inr (), ex_new_world\<lparr>console := console ex_new_world @
                [Console_error ''#### Conversation has not been created.'']\<rparr>)"
proof -
  have h: "\<not> truthy (conversation_id ex_new)"
    by (simp add: ex_new_conversation_id truthy_def)
  from precondition_guard[OF h, of ex_env ex_new_world] h show ?thesis by blast
qed

text \<open>
  C10. The title length guard. When the title typed is longer than 64 characters,
  \<open>__set_conversation_title\<close> leaves the state as it is (the title with it), sends no
  request, and reports an error on the terminal: "Title too long." after the prompt, or,
  when the state has no conversation id, "Conversation has not been created." without
  asking for a title at all.
\<close>

theorem title_length_guard:
  assumes "length answer > 64"
  shows "ChatBot_set_conversation_title E st answer w =
           (st, w\<lparr>console := console w @
                   (if truthy (conversation_id st)
                    then [Prompt_ask ''New title'', Console_error ''#### Title too long.'']
                    else [Console_error ''#### Conversation has not been created.''])\<rparr>)"
  using assms by (simp add: ChatBot_set_conversation_title_def say_def Let_def)

lemma ex_old_conversation_id: "conversation_id ex_old = Some ''conv-1''"
  by (simp add: ex_old_def State_init_def)

theorem title_length_guard_witness:
  "length (replicate 65 CHR ''t'') > 64 \<and>
   ChatBot_set_conversation_title ex_env ex_old (replicate 65 CHR ''t'') ex_old_world =
     (ex_old, ex_old_world\<lparr>console := console ex_old_world @
                [Prompt_ask ''New title'', Console_error ''#### Title too long.'']\<rparr>)"
proof -
  have h: "length (replicate 65 CHR ''t'') > 64" by simp
  have t: "truthy (conversation_id ex_old)" by (simp add: ex_old_conversation_id truthy_def)
  from title_length_guard[OF h, of ex_env ex_old ex_old_world] h t show ?thesis by simp
qed

section \<open>One exchange\<close>

lemma ChatPrompt_init_frame:
  assumes "ChatPrompt_init E t p m w = (a, w')"
  shows "a = next_addr w" "next_addr w' = Suc (next_addr w)" "state w' = state w"
    "calls w' = calls w" "console w' = console w" "token_key w' = token_key w"
    "State_defaults w' = State_defaults w" "b \<noteq> a \<Longrightarrow> heap w' b = heap w b"
  using assms
  by (auto simp: ChatPrompt_init_def or_gen_message_id_def gen_message_id_def Let_def
           split: if_splits prod.splits)

lemma ChatPrompt_init_new:
  assumes "ChatPrompt_init E t p None w = (a, w')"
  shows "prompt (heap w' a) = t"
    "parent_id (heap w' a) = (if truthy p then p else Some (uuid4 E (uuid_count w)))"
    "message_id (heap w' a) =
       Some (uuid4 E (if truthy p then uuid_count w else Suc (uuid_count w)))"
  using assms
  by (auto simp: ChatPrompt_init_def or_gen_message_id_def gen_message_id_def Let_def truthy_def
           split: if_splits prod.splits)

lemma reply_event_calls: "calls (snd (reply_event ev p w)) = calls w"
  by (auto simp: reply_event_def Let_def say_def split: option.splits list.splits)

lemma reply_loop_calls: "calls (snd (reply_loop evs p w)) = calls w"
proof (induction evs arbitrary: p w)
  case Nil
  then show ?case by simp
next
  case (Cons ev evs)
  show ?case
  proof (cases "reply_event ev p w")
    case (Pair r w1)
    with reply_event_calls[of ev p w] have c: "calls w1 = calls w" by simp
    show ?thesis
    proof (cases r)
      case (Inl e)
      with Pair c show ?thesis by simp
    next
      case (Inr p1)
      with Pair c Cons.IH[of p1 w1] show ?thesis by simp
    qed
  qed
qed

lemma print_reply_calls: "calls (snd (ChatBot_print_reply status generator w)) = calls w"
proof (cases "reply_loop generator 0 w")
  case (Pair r w1)
  with reply_loop_calls[of generator 0 w] have "calls w1 = calls w" by simp
  with Pair show ?thesis
    by (cases r) (simp_all add: ChatBot_print_reply_def say_def split: list.splits)
qed

lemma title_requests_snoc:
  "title_requests (cs @ [c]) = title_requests cs + (if is_title_request c then 1 else 0)"
  by (simp add: title_requests_def)

lemma talk_prepare_calls:
  assumes "talk_prepare E text st w = Inr (st1, w1)"
  shows "calls w1 = calls w"
  using assms
  by (auto simp: talk_prepare_def Let_def split: if_splits sum.splits prod.splits
           dest: ChatPrompt_init_frame(4))

text \<open>The three ways through \<open>__talk\<close>.\<close>

lemma ChatBot_talk_cases:
  assumes "state w = Some st"
  obtains (index) e where
      "talk_prepare E text st (say [Console_success_b ''ChatGPT:''] w) = Inl e"
      "ChatBot_talk E text w = (Inl e, say [Console_success_b ''ChatGPT:''] w)"
  | (failed) st1 w1 c status generator e w3 where
      "talk_prepare E text st (say [Console_success_b ''ChatGPT:''] w) = Inr (st1, w1)"
      "talk (api E) text (model_slug st1) (message_id (heap w1 (user_prompt st1)))
         (parent_id (heap w1 (user_prompt st1))) (conversation_id st1) (token_key w1)
         = (status, generator)"
      "\<not> is_title_request c"
      "ChatBot_print_reply status generator (request c (w1\<lparr>state := Some st1\<rparr>)) = (Inl e, w3)"
      "ChatBot_talk E text w = (Inl e, w3)"
  | (replied) st1 w1 c status generator w3 where
      "talk_prepare E text st (say [Console_success_b ''ChatGPT:''] w) = Inr (st1, w1)"
      "talk (api E) text (model_slug st1) (message_id (heap w1 (user_prompt st1)))
         (parent_id (heap w1 (user_prompt st1))) (conversation_id st1) (token_key w1)
         = (status, generator)"
      "\<not> is_title_request c"
      "ChatBot_print_reply status generator (request c (w1\<lparr>state := Some st1\<rparr>)) = (Inr (), w3)"
      "ChatBot_talk E text w = talk_finish E (\<not> truthy (conversation_id st)) w3"
proof -
  let ?w = "say [Console_success_b ''ChatGPT:''] w"
  from assms have s: "state ?w = Some st" by (simp add: say_def)
  show thesis
  proof (cases "talk_prepare E text st ?w")
    case (Inl e)
    with s have "ChatBot_talk E text w = (Inl e, ?w)"
      by (simp add: ChatBot_talk_def Let_def)
    with Inl index show thesis by blast
  next
    case (Inr q)
    obtain st1 w1 where q: "q = (st1, w1)" by (cases q)
    let ?u = "heap w1 (user_prompt st1)"
    let ?c = "call_talk text (model_slug st1) (message_id ?u) (parent_id ?u)
                (conversation_id st1) (token_key w1)"
    obtain status generator where t:
      "talk (api E) text (model_slug st1) (message_id ?u) (parent_id ?u) (conversation_id st1)
         (token_key w1) = (status, generator)"
      by (cases "talk (api E) text (model_slug st1) (message_id ?u) (parent_id ?u)
                   (conversation_id st1) (token_key w1)")
    obtain r w3 where p:
      "ChatBot_print_reply status generator (request ?c (w1\<lparr>state := Some st1\<rparr>)) = (r, w3)"
      by (cases "ChatBot_print_reply status generator (request ?c (w1\<lparr>state := Some st1\<rparr>))")
    have nt: "\<not> is_title_request ?c" by simp
    show thesis
    proof (cases r)
      case (Inl e)
      from Inr q have prep: "talk_prepare E text st ?w = Inr (st1, w1)" by simp
      from p Inl
      have p': "ChatBot_print_reply status generator (request ?c (w1\<lparr>state := Some st1\<rparr>)) = (Inl e, w3)"
        by simp
      from s prep t p' have "ChatBot_talk E text w = (Inl e, w3)"
        by (simp add: ChatBot_talk_def Let_def)
      with prep t nt p' show thesis by (rule failed)
    next
      case r: (Inr x)
      from Inr q have prep: "talk_prepare E text st ?w = Inr (st1, w1)" by simp
      from p r
      have p': "ChatBot_print_reply status generator (request ?c (w1\<lparr>state := Some st1\<rparr>)) = (Inr (), w3)"
        by simp
      from s prep t p'
      have "ChatBot_talk E text w = talk_finish E (\<not> truthy (conversation_id st)) w3"
        by (simp add: ChatBot_talk_def Let_def)
      with prep t nt p' show thesis by (rule replied)
    qed
  qed
qed

lemma talk_finish_requests:
  "title_requests (calls (snd (talk_finish E fp w3))) =
     title_requests (calls w3) + (if fp \<and> state w3 \<noteq> None then 1 else 0)"
  by (auto simp: talk_finish_def Let_def request_def say_def title_requests_snoc
           split: option.splits)

lemma talk_finish_title:
  assumes "fst (talk_finish E True w3) = Inr ()"
  shows "\<exists>st' c m i k. state (snd (talk_finish E True w3)) = Some st' \<and>
           last (calls (snd (talk_finish E True w3))) = call_gen_conversation_title c m i k \<and>
           title st' = Some (gen_conversation_title (api E) c m i k)"
  using assms
  by (auto simp: talk_finish_def Let_def request_def say_def split: option.splits)

text \<open>
  C7. First-turn titling. \<open>__talk\<close> on a state that has a conversation id asks for no
  title, however the exchange ends. On a state without one, when \<open>__talk\<close> returns
  normally, it has asked for a title exactly once; that request is the last one made and
  the title of the state is what the service answered to it.
\<close>

theorem first_turn_titling:
  assumes "state w = Some st"
  shows "(truthy (conversation_id st) \<longrightarrow>
            title_requests (calls (snd (ChatBot_talk E new_text w))) = title_requests (calls w)) \<and>
         (\<not> truthy (conversation_id st) \<and> fst (ChatBot_talk E new_text w) = Inr () \<longrightarrow>
            title_requests (calls (snd (ChatBot_talk E new_text w))) = Suc (title_requests (calls w)) \<and>
            (\<exists>st' c m i k. state (snd (ChatBot_talk E new_text w)) = Some st' \<and>
               last (calls (snd (ChatBot_talk E new_text w))) = call_gen_conversation_title c m i k \<and>
               title st' = Some (gen_conversation_title (api E) c m i k)))"
  using assms
proof (cases rule: ChatBot_talk_cases[of w st E new_text])
  case (index e)
  then show ?thesis by (simp add: say_def)
next
  case (failed st1 w1 c status generator e w3)
  from talk_prepare_calls[OF failed(1)] have "calls w1 = calls w" by (simp add: say_def)
  moreover from print_reply_calls[of status generator "request c (w1\<lparr>state := Some st1\<rparr>)"] failed(4)
  have "calls w3 = calls w1 @ [c]" by (simp add: request_def)
  ultimately show ?thesis using failed(3,5) by (simp add: title_requests_snoc)
next
  case (replied st1 w1 c status generator w3)
  from talk_prepare_calls[OF replied(1)] have "calls w1 = calls w" by (simp add: say_def)
  moreover from print_reply_calls[of status generator "request c (w1\<lparr>state := Some st1\<rparr>)"] replied(4)
  have "calls w3 = calls w1 @ [c]" by (simp add: request_def)
  ultimately have c3: "title_requests (calls w3) = title_requests (calls w)"
    using replied(3) by (simp add: title_requests_snoc)
  show ?thesis
  proof (cases "truthy (conversation_id st)")
    case True
    with replied(5) c3 talk_finish_requests[of E False w3] show ?thesis by simp
  next
    case False
    with replied(5) have eq: "ChatBot_talk E new_text w = talk_finish E True w3" by simp
    have "fst (talk_finish E True w3) = Inr () \<Longrightarrow> state w3 \<noteq> None"
      by (auto simp: talk_finish_def split: option.splits)
    with False eq c3 talk_finish_requests[of E True w3] talk_finish_title[of E w3]
    show ?thesis by auto
  qed
qed

theorem first_turn_titling_witness:
  "state ex_new_world = Some ex_new \<and> \<not> truthy (conversation_id ex_new) \<and>
   fst (ChatBot_talk ex_env ''Hi'' ex_new_world) = Inr () \<and>
   title_requests (calls (snd (ChatBot_talk ex_env ''Hi'' ex_new_world))) =
     Suc (title_requests (calls ex_new_world)) \<and>
   state ex_old_world = Some ex_old \<and> truthy (conversation_id ex_old) \<and>
   title_requests (calls (snd (ChatBot_talk ex_env ''Hi'' ex_old_world))) =
     title_requests (calls ex_old_world)"
proof -
  have n1: "state ex_new_world = Some ex_new" by (simp add: ex_new_world_def)
  have n2: "\<not> truthy (conversation_id ex_new)" by (simp add: ex_new_conversation_id truthy_def)
  have n3: "fst (ChatBot_talk ex_env ''Hi'' ex_new_world) = Inr ()" by code_simp
  have o1: "state ex_old_world = Some ex_old" by (simp add: ex_old_world_def)
  have o2: "truthy (conversation_id ex_old)" by (simp add: ex_old_conversation_id truthy_def)
  from first_turn_titling[OF n1, where E = ex_env and new_text = "''Hi''"]
    first_turn_titling[OF o1, where E = ex_env and new_text = "''Hi''"] n1 n2 n3 o1 o2
  show ?thesis by blast
qed

section \<open>Editing an earlier turn\<close>

lemma py_index_in_range:
  assumes "1 \<le> k" "k \<le> int (length xs)"
  shows "py_index xs (k - 1) = Inr (xs ! nat (k - 1))"
  using assms by (simp add: py_index_def)

lemma py_slice_to_in_range:
  assumes "1 \<le> k"
  shows "py_slice_to xs (k - 1) = take (nat (k - 1)) xs"
  using assms by (simp add: py_slice_to_def)

lemma talk_prepare_edit:
  assumes "edit_index st = Some k" "1 \<le> k" "k \<le> int (length (user_prompts st))"
    and "ChatPrompt_init E (Some text) (parent_id (heap w (user_prompts st ! nat (k - 1)))) None w
           = (a, w1)"
  shows "talk_prepare E text st w =
           Inr (st\<lparr>user_prompt := a, user_prompts := take (nat (k - 1)) (user_prompts st),
                   edit_index := None\<rparr>, w1)"
  using assms
  by (simp add: talk_prepare_def py_index_in_range py_slice_to_in_range)

lemma reply_event_effect:
  assumes "ok_event ev" "state w = Some st" "user_prompt st \<noteq> chatgpt_prompt st"
  shows "\<exists>p' w' st'. reply_event ev p w = (Inr p', w') \<and> state w' = Some st' \<and>
           user_prompt st' = user_prompt st \<and> chatgpt_prompt st' = chatgpt_prompt st \<and>
           user_prompts st' = user_prompts st \<and> edit_index st' = edit_index st \<and>
           prompt (heap w' (user_prompt st)) = prompt (heap w (user_prompt st)) \<and>
           parent_id (heap w' (user_prompt st)) =
             (case system_id ev of None \<Rightarrow> parent_id (heap w (user_prompt st)) | Some i \<Rightarrow> Some i)"
  using assms
  by (auto simp: ok_event_def reply_event_def system_id_def Let_def say_def
           split: option.splits list.splits)

lemma reply_loop_effect:
  assumes "list_all ok_event evs" "state w = Some st" "user_prompt st \<noteq> chatgpt_prompt st"
  shows "\<exists>p' w' st'. reply_loop evs p w = (Inr p', w') \<and> state w' = Some st' \<and>
           user_prompt st' = user_prompt st \<and> chatgpt_prompt st' = chatgpt_prompt st \<and>
           user_prompts st' = user_prompts st \<and> edit_index st' = edit_index st \<and>
           prompt (heap w' (user_prompt st)) = prompt (heap w (user_prompt st)) \<and>
           parent_id (heap w' (user_prompt st)) =
             last (parent_id (heap w (user_prompt st)) # map Some (List.map_filter system_id evs))"
  using assms
proof (induction evs arbitrary: p w st)
  case Nil
  then show ?case by (simp add: map_filter_simps)
next
  case (Cons ev evs)
  from Cons.prems have ok: "ok_event ev" and oks: "list_all ok_event evs" by simp_all
  from reply_event_effect[OF ok Cons.prems(2,3), of p]
  obtain p1 w1 st1 where e: "reply_event ev p w = (Inr p1, w1)" "state w1 = Some st1"
    "user_prompt st1 = user_prompt st" "chatgpt_prompt st1 = chatgpt_prompt st"
    "user_prompts st1 = user_prompts st" "edit_index st1 = edit_index st"
    "prompt (heap w1 (user_prompt st)) = prompt (heap w (user_prompt st))"
    "parent_id (heap w1 (user_prompt st)) =
       (case system_id ev of None \<Rightarrow> parent_id (heap w (user_prompt st)) | Some i \<Rightarrow> Some i)"
    by blast
  from Cons.prems(3) e(3,4) have ne: "user_prompt st1 \<noteq> chatgpt_prompt st1" by simp
  from Cons.IH[OF oks e(2) ne, of p1] e(3)
  obtain p' w' st' where l: "reply_loop evs p1 w1 = (Inr p', w')" "state w' = Some st'"
    "user_prompt st' = user_prompt st1" "chatgpt_prompt st' = chatgpt_prompt st1"
    "user_prompts st' = user_prompts st1" "edit_index st' = edit_index st1"
    "prompt (heap w' (user_prompt st)) = prompt (heap w1 (user_prompt st))"
    "parent_id (heap w' (user_prompt st)) =
       last (parent_id (heap w1 (user_prompt st)) # map Some (List.map_filter system_id evs))"
    by auto
  have "last (parent_id (heap w1 (user_prompt st)) # map Some (List.map_filter system_id evs)) =
        last (parent_id (heap w (user_prompt st)) # map Some (List.map_filter system_id (ev # evs)))"
    using e(8) by (cases "system_id ev") (simp_all add: map_filter_simps)
  with e l show ?case by simp
qed

text \<open>The reply touches no object but the two prompts of the state.\<close>

lemma reply_event_state:
  assumes "state w = Some st"
  shows "\<exists>st'. state (snd (reply_event ev p w)) = Some st' \<and>
           user_prompt st' = user_prompt st \<and> chatgpt_prompt st' = chatgpt_prompt st"
  using assms
  by (auto simp: reply_event_def Let_def say_def split: option.splits list.splits)

lemma reply_event_frame:
  assumes "state w = Some st" "b \<noteq> user_prompt st" "b \<noteq> chatgpt_prompt st"
  shows "heap (snd (reply_event ev p w)) b = heap w b"
  using assms
  by (auto simp: reply_event_def Let_def say_def split: option.splits list.splits)

lemma reply_loop_frame:
  assumes "state w = Some st" "b \<noteq> user_prompt st" "b \<noteq> chatgpt_prompt st"
  shows "heap (snd (reply_loop evs p w)) b = heap w b"
  using assms
proof (induction evs arbitrary: p w st)
  case Nil
  then show ?case by simp
next
  case (Cons ev evs)
  obtain r w1 where e: "reply_event ev p w = (r, w1)" by (cases "reply_event ev p w")
  from reply_event_frame[OF Cons.prems, of ev p] e have h1: "heap w1 b = heap w b" by simp
  show ?case
  proof (cases r)
    case (Inl x)
    with e h1 show ?thesis by simp
  next
    case (Inr p1)
    from reply_event_state[OF Cons.prems(1), of ev p] e
    obtain st1 where s1: "state w1 = Some st1" "user_prompt st1 = user_prompt st"
      "chatgpt_prompt st1 = chatgpt_prompt st"
      by auto
    from Cons.prems(2,3) s1 have "b \<noteq> user_prompt st1" "b \<noteq> chatgpt_prompt st1" by simp_all
    from Cons.IH[OF s1(1) this, of p1] e Inr h1 show ?thesis by simp
  qed
qed

text \<open>
  C3. The splice of an edit. The state has \<open>edit_index = k\<close> with \<open>1 \<le> k \<le> len(user_prompts)\<close>;
  the assistant prompt and the entries before position \<open>k\<close> are objects that exist
  already, and none of these entries is the assistant prompt; the service answers the
  request of \<open>__talk(new_text)\<close> with status 200 and a stream of well-formed events. Then
  \<open>__talk\<close> returns normally and \<open>edit_index\<close> is \<open>None\<close>. The history is the entries
  before position \<open>k\<close>, the same objects with the text and the \<open>parent_id\<close> they had,
  followed by one new entry, the user prompt just made, whose text is \<open>new_text\<close>. The
  \<open>parent_id\<close> of the new entry is the message id of the last system event of the stream
  when there is one (see C9), and otherwise the \<open>parent_id\<close> of the old entry \<open>k\<close> (a
  fresh identifier in place of an empty one).
\<close>

theorem edit_splice:
  assumes st: "state w = Some st"
    and k: "edit_index st = Some k" "1 \<le> k" "k \<le> int (length (user_prompts st))"
    and c: "chatgpt_prompt st < next_addr w"
    and kept: "\<forall>a \<in> set (take (nat (k - 1)) (user_prompts st)).
                 a < next_addr w \<and> a \<noteq> chatgpt_prompt st"
    and old: "old = heap w (user_prompts st ! nat (k - 1))"
    and pid: "pid = (if truthy (parent_id old) then parent_id old
                     else Some (uuid4 E (uuid_count w)))"
    and mid: "mid = Some (uuid4 E (if truthy (parent_id old) then uuid_count w
                                   else Suc (uuid_count w)))"
    and resp: "talk (api E) new_text (model_slug st) mid pid (conversation_id st) (token_key w)
                 = (200, generator)"
    and ok: "list_all ok_event generator"
  shows "\<exists>w' st'. ChatBot_talk E new_text w = (Inr (), w') \<and> state w' = Some st' \<and>
           edit_index st' = None \<and>
           user_prompts st' = take (nat (k - 1)) (user_prompts st) @ [next_addr w] \<and>
           prompt (heap w' (next_addr w)) = Some new_text \<and>
           parent_id (heap w' (next_addr w)) =
             last (pid # map Some (List.map_filter system_id generator)) \<and>
           history w' =
             take (nat (k - 1)) (history w) @
             [(Some new_text, last (pid # map Some (List.map_filter system_id generator)))]"
proof -
  let ?w = "say [Console_success_b ''ChatGPT:''] w"
  let ?a = "next_addr w"
  let ?kept = "take (nat (k - 1)) (user_prompts st)"
  have s: "state ?w = Some st" and hw: "heap ?w = heap w" and nw: "next_addr ?w = next_addr w"
    and uw: "uuid_count ?w = uuid_count w" and tw: "token_key ?w = token_key w"
    using st by (simp_all add: say_def)
  obtain a w1 where init:
    "ChatPrompt_init E (Some new_text) (parent_id (heap ?w (user_prompts st ! nat (k - 1)))) None ?w
       = (a, w1)"
    by (cases "ChatPrompt_init E (Some new_text)
                 (parent_id (heap ?w (user_prompts st ! nat (k - 1)))) None ?w")
  from ChatPrompt_init_frame[OF init] nw tw have a: "a = ?a" and t1: "token_key w1 = token_key w"
    by simp_all
  from ChatPrompt_init_new[OF init] hw uw old pid mid a
  have new: "prompt (heap w1 ?a) = Some new_text" "parent_id (heap w1 ?a) = pid"
    "message_id (heap w1 ?a) = mid"
    by simp_all
  let ?st1 = "st\<lparr>user_prompt := ?a, user_prompts := ?kept, edit_index := None\<rparr>"
  from talk_prepare_edit[OF k init] a have prep: "talk_prepare E new_text st ?w = Inr (?st1, w1)"
    by simp
  let ?c = "call_talk new_text (model_slug st) mid pid (conversation_id st) (token_key w)"
  let ?w2 = "request ?c (w1\<lparr>state := Some ?st1\<rparr>)"
  have s2: "state ?w2 = Some ?st1" and h2: "heap ?w2 = heap w1" by (simp_all add: request_def)
  from c have ne: "user_prompt ?st1 \<noteq> chatgpt_prompt ?st1" by simp
  from reply_loop_effect[OF ok s2 ne, of 0] h2 new
  obtain p' w3 st3 where l: "reply_loop generator 0 ?w2 = (Inr p', w3)"
    "state w3 = Some st3" "user_prompt st3 = ?a"
    "user_prompts st3 = ?kept" "edit_index st3 = None"
    "prompt (heap w3 ?a) = Some new_text"
    "parent_id (heap w3 ?a) = last (pid # map Some (List.map_filter system_id generator))"
    by auto
  let ?w3 = "say [print [CHR 0x0A]] w3"
  from l(1) have pr: "ChatBot_print_reply 200 generator ?w2 = (Inr (), ?w3)"
    by (simp add: ChatBot_print_reply_def)
  from s prep new t1 resp pr
  have talk: "ChatBot_talk E new_text w = talk_finish E (\<not> truthy (conversation_id st)) ?w3"
    by (simp add: ChatBot_talk_def Let_def)
  from l(2) have s3: "state ?w3 = Some st3" by (simp add: say_def)
  have h3: "heap ?w3 = heap w3" by (simp add: say_def)
  obtain w' where fin: "talk_finish E (\<not> truthy (conversation_id st)) ?w3 = (Inr (), w')"
    and fs: "\<exists>st'. state w' = Some st' \<and> edit_index st' = None \<and>
               user_prompts st' = ?kept @ [?a]"
    and fh: "heap w' = heap ?w3"
    using s3 l(3,4,5) by (cases "truthy (conversation_id st)")
                (auto simp: talk_finish_def Let_def say_def request_def)
  from fs obtain st' where st': "state w' = Some st'" "edit_index st' = None"
    "user_prompts st' = ?kept @ [?a]"
    by blast
  have same: "heap w' b = heap w b" if b: "b \<in> set ?kept" for b
  proof -
    from kept b have b1: "b \<noteq> ?a" and b2: "b \<noteq> chatgpt_prompt st" by auto
    from ChatPrompt_init_frame(8)[OF init, of b] b1 a hw have "heap w1 b = heap w b" by simp
    moreover from reply_loop_frame[OF s2, of b generator 0] b1 b2 l(1) h2
    have "heap w3 b = heap w1 b" by simp
    ultimately show ?thesis using fh h3 by simp
  qed
  have "map (\<lambda>b. (prompt (heap w' b), parent_id (heap w' b))) ?kept =
        map (\<lambda>b. (prompt (heap w b), parent_id (heap w b))) ?kept"
    using same by simp
  also have "\<dots> = take (nat (k - 1)) (history w)"
    using st by (simp add: history_def take_map)
  finally have keep:
    "map (\<lambda>b. (prompt (heap w' b), parent_id (heap w' b))) ?kept = take (nat (k - 1)) (history w)" .
  from fh h3 l(6,7) have new': "prompt (heap w' ?a) = Some new_text"
    "parent_id (heap w' ?a) = last (pid # map Some (List.map_filter system_id generator))"
    by simp_all
  from st' keep new' have "history w' =
      take (nat (k - 1)) (history w) @
      [(Some new_text, last (pid # map Some (List.map_filter system_id generator)))]"
    by (simp add: history_def)
  with talk fin st' new' show ?thesis by simp
qed

text \<open>
  The claim as the specification has it, the new entry taking the \<open>parent_id\<close> of the old
  entry \<open>k\<close>, fails on a reply that carries a system event: editing entry 1 (parent
  \<open>root\<close>) with the example stream leaves the new entry with parent \<open>sys-1\<close>.
\<close>

theorem edit_splice_counterexample:
  "edit_index (the (state ex_edit_world)) = Some 1 \<and>
   fst (ChatBot_talk ex_env ''Hello?'' ex_edit_world) = Inr () \<and>
   parent_id (heap ex_edit_world (user_prompts (the (state ex_edit_world)) ! 0)) = Some ''root'' \<and>
   parent_id (heap (snd (ChatBot_talk ex_env ''Hello?'' ex_edit_world))
     (last (user_prompts (the (state (snd (ChatBot_talk ex_env ''Hello?'' ex_edit_world)))))))
     = Some ''sys-1''"
  by code_simp

theorem edit_splice_witness:
  "state ex_edit2_world = Some ex_edit2 \<and> edit_index ex_edit2 = Some 2 \<and> (1::int) \<le> 2 \<and>
   2 \<le> int (length (user_prompts ex_edit2)) \<and>
   chatgpt_prompt ex_edit2 < next_addr ex_edit2_world \<and>
   take (nat (2 - 1)) (user_prompts ex_edit2) = [2] \<and>
   2 < next_addr ex_edit2_world \<and> 2 \<noteq> chatgpt_prompt ex_edit2 \<and>
   talk (api ex_env) ''Again'' (model_slug ex_edit2) (Some ''uiiiiii'') (Some ''msg-1'')
     (conversation_id ex_edit2) (token_key ex_edit2_world) = (200, ex_stream) \<and>
   list_all ok_event ex_stream \<and>
   history ex_edit2_world = [(Some ''Hi'', Some ''root''), (Some ''More'', Some ''msg-1'')] \<and>
   (\<exists>w' st'. ChatBot_talk ex_env ''Again'' ex_edit2_world = (Inr (), w') \<and>
      state w' = Some st' \<and> edit_index st' = None \<and>
      user_prompts st' = [2, 4] \<and>
      history w' = [(Some ''Hi'', Some ''root''), (Some ''Again'', Some ''sys-1'')])"
proof -
  have h1: "state ex_edit2_world = Some ex_edit2" by (simp add: ex_edit2_world_def)
  have h2: "edit_index ex_edit2 = Some 2" by (simp add: ex_edit2_def)
  have h3: "(1::int) \<le> 2" by simp
  have h4: "2 \<le> int (length (user_prompts ex_edit2))" by (simp add: ex_edit2_def)
  have h5: "chatgpt_prompt ex_edit2 < next_addr ex_edit2_world" by code_simp
  have h5': "\<forall>a \<in> set (take (nat (2 - 1)) (user_prompts ex_edit2)).
               a < next_addr ex_edit2_world \<and> a \<noteq> chatgpt_prompt ex_edit2"
    by code_simp
  have h6: "heap ex_edit2_world (user_prompts ex_edit2 ! nat (2 - 1)) =
            heap ex_edit2_world (user_prompts ex_edit2 ! nat (2 - 1))" by (rule refl)
  have h7: "Some ''msg-1'' =
     (if truthy (parent_id (heap ex_edit2_world (user_prompts ex_edit2 ! nat (2 - 1))))
      then parent_id (heap ex_edit2_world (user_prompts ex_edit2 ! nat (2 - 1)))
      else Some (uuid4 ex_env (uuid_count ex_edit2_world)))" by code_simp
  have h8: "Some ''uiiiiii'' =
     Some (uuid4 ex_env
       (if truthy (parent_id (heap ex_edit2_world (user_prompts ex_edit2 ! nat (2 - 1))))
        then uuid_count ex_edit2_world else Suc (uuid_count ex_edit2_world)))" by code_simp
  have h9: "talk (api ex_env) ''Again'' (model_slug ex_edit2) (Some ''uiiiiii'') (Some ''msg-1'')
     (conversation_id ex_edit2) (token_key ex_edit2_world) = (200, ex_stream)"
    by (simp add: ex_env_def ex_api_def)
  have hist: "history ex_edit2_world = [(Some ''Hi'', Some ''root''), (Some ''More'', Some ''msg-1'')]"
    by code_simp
  have n: "next_addr ex_edit2_world = 4" by code_simp
  have u: "take (nat (2 - 1)) (user_prompts ex_edit2) = [2]" by (simp add: ex_edit2_def)
  have sys: "last (Some ''msg-1'' # map Some (List.map_filter system_id ex_stream)) = Some ''sys-1''"
    by (simp add: ex_stream_def mk_event_def mk_message_def system_id_def map_filter_simps)
  from edit_splice[OF h1 h2 h3 h4 h5 h5' h6 h7 h8 h9 ex_stream_ok]
  obtain w' st' where r: "ChatBot_talk ex_env ''Again'' ex_edit2_world = (Inr (), w')"
    "state w' = Some st'" "edit_index st' = None"
    "user_prompts st' = take (nat (2 - 1)) (user_prompts ex_edit2) @ [next_addr ex_edit2_world]"
    "history w' = take (nat (2 - 1)) (history ex_edit2_world) @
       [(Some ''Again'', last (Some ''msg-1'' # map Some (List.map_filter system_id ex_stream)))]"
    by blast
  from r(4) n u have r4: "user_prompts st' = [2, 4]" by simp
  from r(5) hist sys
  have r5: "history w' = [(Some ''Hi'', Some ''root''), (Some ''Again'', Some ''sys-1'')]"
    by simp
  have k1: "2 < next_addr ex_edit2_world" by code_simp
  have k2: "2 \<noteq> chatgpt_prompt ex_edit2" by code_simp
  from r(1,2,3) r4 r5 h1 h2 h3 h4 h5 u k1 k2 h9 ex_stream_ok hist show ?thesis by blast
qed

section \<open>System events in the reply stream\<close>

lemma reply_event_system:
  assumes "state w = Some st" and "\<not> truthy (error result)" and "ev_message result = Some msg"
    and "author msg = Some ''system''" and "parts msg \<noteq> []"
  shows "fst (reply_event result p w) = Inr p"
    and "parent_id (heap (snd (reply_event result p w)) (user_prompt st)) = Some (msg_id msg)"
  using assms
  by (auto simp: reply_event_def Let_def split: list.splits)

text \<open>One event: the state keeps its two prompts, and only an assistant text is printed.\<close>

lemma reply_event_console:
  assumes "ok_event ev" "state w = Some st"
  shows "\<exists>p' w' st'. reply_event ev p w = (Inr p', w') \<and> state w' = Some st' \<and>
           user_prompt st' = user_prompt st \<and> chatgpt_prompt st' = chatgpt_prompt st \<and>
           console w' @ chunks p' ts =
             console w @ chunks p (case assistant_text ev of None \<Rightarrow> ts | Some t \<Rightarrow> t # ts)"
  using assms
  by (auto simp: ok_event_def assistant_text_def reply_event_def Let_def say_def
           split: option.splits list.splits)

lemma reply_loop_console:
  assumes "list_all ok_event evs" "state w = Some st"
  shows "\<exists>p' w' st'. reply_loop evs p w = (Inr p', w') \<and> state w' = Some st' \<and>
           user_prompt st' = user_prompt st \<and> chatgpt_prompt st' = chatgpt_prompt st \<and>
           console w' = console w @ chunks p (assistant_texts evs)"
  using assms
proof (induction evs arbitrary: p w st)
  case Nil
  then show ?case by (simp add: assistant_texts_def map_filter_simps)
next
  case (Cons ev evs)
  from Cons.prems have ok: "ok_event ev" and oks: "list_all ok_event evs" by simp_all
  from reply_event_console[OF ok Cons.prems(2), of p "assistant_texts evs"]
  obtain p1 w1 st1 where e: "reply_event ev p w = (Inr p1, w1)" "state w1 = Some st1"
    "user_prompt st1 = user_prompt st" "chatgpt_prompt st1 = chatgpt_prompt st"
    "console w1 @ chunks p1 (assistant_texts evs) =
       console w @ chunks p (case assistant_text ev of None \<Rightarrow> assistant_texts evs
                                 | Some t \<Rightarrow> t # assistant_texts evs)"
    by blast
  from Cons.IH[OF oks e(2), of p1]
  obtain p' w' st' where l: "reply_loop evs p1 w1 = (Inr p', w')" "state w' = Some st'"
    "user_prompt st' = user_prompt st1" "chatgpt_prompt st' = chatgpt_prompt st1"
    "console w' = console w1 @ chunks p1 (assistant_texts evs)"
    by blast
  have "assistant_texts (ev # evs) =
          (case assistant_text ev of None \<Rightarrow> assistant_texts evs
           | Some t \<Rightarrow> t # assistant_texts evs)"
    by (cases "assistant_text ev") (simp_all add: assistant_texts_def map_filter_simps)
  with e l show ?case by simp
qed

lemma reply_loop_append:
  "reply_loop (xs @ ys) p w =
     (case reply_loop xs p w of
        (Inl e, w') \<Rightarrow> (Inl e, w')
      | (Inr p', w') \<Rightarrow> reply_loop ys p' w')"
  by (induction xs arbitrary: p w) (auto split: prod.splits sum.splits)

lemma map_filter_append:
  "List.map_filter f (xs @ ys) = List.map_filter f xs @ List.map_filter f ys"
  by (simp add: List.map_filter_def)

lemma print_reply_heap:
  "reply_loop evs 0 w = (Inr p, w') \<Longrightarrow>
     ChatBot_print_reply 200 evs w = (Inr (), say [print [CHR 0x0A]] w')"
  by (simp add: ChatBot_print_reply_def)

text \<open>
  C9. A system event re-parents the user prompt and prints nothing. Take a stream with
  status 200 of well-formed events in which the event \<open>ev\<close>, of the role "system", comes
  after the events \<open>pre\<close> and before the events \<open>post\<close>. Then \<open>__print_reply\<close> returns
  normally. Once \<open>ev\<close> has been processed (the stream read up to and including it) the
  \<open>parent_id\<close> of the current user prompt is the id of the message of \<open>ev\<close>; at the end of
  the whole stream it is the id of the last system event (when the two prompts of the state
  are two objects). The terminal is the same as for the stream without \<open>ev\<close>: only the
  assistant texts are printed, each from the offset on.
\<close>

theorem system_event_reparents:
  assumes "state w = Some st" and "list_all ok_event (pre @ ev # post)"
    and "ev_message ev = Some msg" and "author msg = Some ''system''"
  shows "fst (ChatBot_print_reply 200 (pre @ ev # post) w) = Inr () \<and>
         parent_id (heap (snd (ChatBot_print_reply 200 (pre @ [ev]) w)) (user_prompt st)) =
           Some (msg_id msg) \<and>
         (user_prompt st \<noteq> chatgpt_prompt st \<longrightarrow>
            parent_id (heap (snd (ChatBot_print_reply 200 (pre @ ev # post) w)) (user_prompt st)) =
              last (Some (msg_id msg) # map Some (List.map_filter system_id post))) \<and>
         console (snd (ChatBot_print_reply 200 (pre @ ev # post) w)) =
           console (snd (ChatBot_print_reply 200 (pre @ post) w)) \<and>
         console (snd (ChatBot_print_reply 200 (pre @ ev # post) w)) =
           console w @ chunks 0 (assistant_texts (pre @ ev # post)) @ [print [CHR 0x0A]]"
proof -
  let ?all = "pre @ ev # post"
  from assms(2) have okp: "list_all ok_event pre" and oke: "ok_event ev"
    and okr: "list_all ok_event (pre @ post)"
    by simp_all
  from oke assms(3) have e1: "\<not> truthy (error ev)" and e2: "parts msg \<noteq> []"
    by (simp_all add: ok_event_def)
  from assms(3,4) have at: "assistant_text ev = None" and sid: "system_id ev = Some (msg_id msg)"
    by (simp_all add: assistant_text_def system_id_def)
  \<comment> \<open>the whole stream\<close>
  from reply_loop_console[OF assms(2,1), of 0]
  obtain p' w' where all: "reply_loop ?all 0 w = (Inr p', w')"
    "console w' = console w @ chunks 0 (assistant_texts ?all)"
    by blast
  from print_reply_heap[OF all(1)]
  have pa: "ChatBot_print_reply 200 ?all w = (Inr (), say [print [CHR 0x0A]] w')" .
  \<comment> \<open>the stream without the event\<close>
  from reply_loop_console[OF okr assms(1), of 0]
  obtain q' v' where wo: "reply_loop (pre @ post) 0 w = (Inr q', v')"
    "console v' = console w @ chunks 0 (assistant_texts (pre @ post))"
    by blast
  from print_reply_heap[OF wo(1)]
  have pw: "ChatBot_print_reply 200 (pre @ post) w = (Inr (), say [print [CHR 0x0A]] v')" .
  from at have "assistant_texts ?all = assistant_texts (pre @ post)"
    by (simp add: assistant_texts_def map_filter_append map_filter_simps)
  with all(2) wo(2) have same: "console w' = console v'" by simp
  \<comment> \<open>the stream up to the event\<close>
  from reply_loop_console[OF okp assms(1), of 0]
  obtain p1 w1 st1 where pr: "reply_loop pre 0 w = (Inr p1, w1)" "state w1 = Some st1"
    "user_prompt st1 = user_prompt st"
    by blast
  from reply_event_system[OF pr(2) e1 assms(3,4) e2, of p1] pr(3)
  have ev: "fst (reply_event ev p1 w1) = Inr p1"
    "parent_id (heap (snd (reply_event ev p1 w1)) (user_prompt st)) = Some (msg_id msg)"
    by simp_all
  obtain w2 where w2: "reply_event ev p1 w1 = (Inr p1, w2)"
    using ev(1) by (cases "reply_event ev p1 w1") simp
  from pr(1) w2 have "reply_loop (pre @ [ev]) 0 w = (Inr p1, w2)"
    by (simp add: reply_loop_append)
  from print_reply_heap[OF this] ev(2) w2
  have upto: "parent_id (heap (snd (ChatBot_print_reply 200 (pre @ [ev]) w)) (user_prompt st)) =
                Some (msg_id msg)"
    by (simp add: say_def)
  \<comment> \<open>the end of the stream\<close>
  have final: "parent_id (heap (snd (ChatBot_print_reply 200 ?all w)) (user_prompt st)) =
                 last (Some (msg_id msg) # map Some (List.map_filter system_id post))"
    if ne: "user_prompt st \<noteq> chatgpt_prompt st"
  proof -
    from reply_loop_effect[OF assms(2,1) ne, of 0] all(1)
    have "parent_id (heap w' (user_prompt st)) =
            last (parent_id (heap w (user_prompt st)) # map Some (List.map_filter system_id ?all))"
      by auto
    also have "\<dots> = last (Some (msg_id msg) # map Some (List.map_filter system_id post))"
      using sid by (simp add: map_filter_append map_filter_simps)
    finally show ?thesis using pa by (simp add: say_def)
  qed
  from pa pw same all(2) upto final show ?thesis by (simp add: say_def)
qed

theorem system_event_reparents_witness:
  "state ex_new_world = Some ex_new \<and>
   list_all ok_event ([mk_event ''assistant'' ''msg-1'' ''He''] @
      mk_event ''system'' ''sys-1'' [] # [mk_event ''assistant'' ''msg-1'' ''Hello'']) \<and>
   ev_message (mk_event ''system'' ''sys-1'' []) = Some (mk_message ''system'' ''sys-1'' []) \<and>
   author (mk_message ''system'' ''sys-1'' []) = Some ''system'' \<and>
   user_prompt ex_new \<noteq> chatgpt_prompt ex_new \<and>
   fst (ChatBot_print_reply 200 ([mk_event ''assistant'' ''msg-1'' ''He''] @
      mk_event ''system'' ''sys-1'' [] # [mk_event ''assistant'' ''msg-1'' ''Hello'']) ex_new_world)
     = Inr () \<and>
   parent_id (heap (snd (ChatBot_print_reply 200 ([mk_event ''assistant'' ''msg-1'' ''He''] @
      [mk_event ''system'' ''sys-1'' []]) ex_new_world)) (user_prompt ex_new)) = Some ''sys-1'' \<and>
   parent_id (heap (snd (ChatBot_print_reply 200 ([mk_event ''assistant'' ''msg-1'' ''He''] @
      mk_event ''system'' ''sys-1'' [] # [mk_event ''assistant'' ''msg-1'' ''Hello'']) ex_new_world))
      (user_prompt ex_new)) = Some ''sys-1'' \<and>
   console (snd (ChatBot_print_reply 200 ([mk_event ''assistant'' ''msg-1'' ''He''] @
      mk_event ''system'' ''sys-1'' [] # [mk_event ''assistant'' ''msg-1'' ''Hello'']) ex_new_world))
     = console (snd (ChatBot_print_reply 200 ([mk_event ''assistant'' ''msg-1'' ''He''] @
      [mk_event ''assistant'' ''msg-1'' ''Hello'']) ex_new_world))"
proof -
  have h1: "state ex_new_world = Some ex_new" by (simp add: ex_new_world_def)
  have h2: "list_all ok_event ([mk_event ''assistant'' ''msg-1'' ''He''] @
      mk_event ''system'' ''sys-1'' [] # [mk_event ''assistant'' ''msg-1'' ''Hello''])"
    by (simp add: mk_event_def mk_message_def ok_event_def truthy_def)
  have h3: "ev_message (mk_event ''system'' ''sys-1'' []) = Some (mk_message ''system'' ''sys-1'' [])"
    by (simp add: mk_event_def)
  have h4: "author (mk_message ''system'' ''sys-1'' []) = Some ''system''"
    by (simp add: mk_message_def)
  have h5: "user_prompt ex_new \<noteq> chatgpt_prompt ex_new" by code_simp
  have i: "msg_id (mk_message ''system'' ''sys-1'' []) = ''sys-1''" by (simp add: mk_message_def)
  have l: "last (Some ''sys-1'' # map Some
             (List.map_filter system_id [mk_event ''assistant'' ''msg-1'' ''Hello''])) = Some ''sys-1''"
    by (simp add: mk_event_def mk_message_def system_id_def map_filter_simps)
  from system_event_reparents[OF h1 h2 h3 h4] h1 h2 h3 h4 h5 i l show ?thesis by simp
qed

section \<open>Shared defaults\<close>

text \<open>
  C4. Message ids are not unique across states. The defaults of \<open>State.__init__\<close> are
  evaluated once, so two states made without explicit prompts, here
  \<open>State(conversation_id='conv-a')\<close> and \<open>State(conversation_id='conv-b')\<close>, are different
  states that refer to the same two prompt objects, and so hold the same message ids: the
  identifiers drawn when the class was defined.
\<close>

theorem default_prompts_shared:
  "State_init None (Some ''conv-a'') None None None (import_module E) \<noteq>
     State_init None (Some ''conv-b'') None None None (import_module E) \<and>
   user_prompt (State_init None (Some ''conv-a'') None None None (import_module E)) =
     user_prompt (State_init None (Some ''conv-b'') None None None (import_module E)) \<and>
   message_id (heap (import_module E)
      (user_prompt (State_init None (Some ''conv-a'') None None None (import_module E)))) =
     Some (uuid4 E 1) \<and>
   message_id (heap (import_module E)
      (user_prompt (State_init None (Some ''conv-b'') None None None (import_module E)))) =
     Some (uuid4 E 1)"
  by (simp add: State_init_def import_module_def ChatPrompt_init_def or_gen_message_id_def
        gen_message_id_def truthy_def Let_def)

section \<open>Rendering a loaded conversation\<close>

lemma load_node_assistant:
  assumes "state w = Some st" "node_message n = Some m" "role_of m = Inr ''assistant''"
    "parts m = t # ts"
  shows "\<exists>w'. load_node E n mg w = (Inr (end_turn m = null), w') \<and> state w' \<noteq> None \<and>
           console w' = console w @ (if mg then [] else [Console_success_b ''ChatGPT:'']) @
             [Console_success t] @ (if end_turn m = null then [] else [print []])"
  using assms
  by (auto simp: load_node_def Let_def say_def split: option.splits)

lemma load_node_user_console:
  assumes "state w = Some st" "node_message n = Some m" "role_of m = Inr ''user''"
    "parts m = t # ts"
  shows "\<exists>w'. load_node E n mg w = (Inr mg, w') \<and>
           console w' = console w @ [Console_info_b ''You:'', Console_info t] @
             (if mg then [] else [print []])"
  using assms
  by (auto simp: load_node_def Let_def say_def ChatPrompt_init_def or_gen_message_id_def
        gen_message_id_def split: option.splits prod.splits)

text \<open>
  The two ways through the loop in which the flag does what it is there for. Two assistant
  nodes in a row, the first with \<open>end_turn\<close> null: the two texts follow each other, with
  no blank line and no second heading between them. An assistant node whose \<open>end_turn\<close> is
  absent or holds a boolean, followed by a user node: a blank line ends the assistant
  turn, then come the heading of the user turn, its text and a blank line.
\<close>

lemma merged_and_separated_turns:
  assumes "state w = Some st"
    and "node_message a1 = Some m1" "role_of m1 = Inr ''assistant''" "parts m1 = t1 # ts1"
    and "end_turn m1 = null"
    and "node_message a2 = Some m2" "role_of m2 = Inr ''assistant''" "parts m2 = t2 # ts2"
    and "node_message b = Some mb" "role_of mb = Inr ''assistant''" "parts mb = tb # tsb"
    and "end_turn mb \<noteq> null"
    and "node_message u = Some mu" "role_of mu = Inr ''user''" "parts mu = tu # tsu"
  shows "console (snd (load_nodes E [a1, a2] mg w)) =
           console w @ (if mg then [] else [Console_success_b ''ChatGPT:'']) @
             [Console_success t1, Console_success t2] @
             (if end_turn m2 = null then [] else [print []]) \<and>
         console (snd (load_nodes E [b, u] mg w)) =
           console w @ (if mg then [] else [Console_success_b ''ChatGPT:'']) @
             [Console_success tb, print [], Console_info_b ''You:'', Console_info tu, print []]"
proof -
  from load_node_assistant[OF assms(1,2,3,4), of E mg] assms(5)
  obtain w1 st1 where a: "load_node E a1 mg w = (Inr True, w1)" "state w1 = Some st1"
    "console w1 = console w @ (if mg then [] else [Console_success_b ''ChatGPT:'']) @
       [Console_success t1]"
    by auto
  from load_node_assistant[OF a(2) assms(6,7,8), of E True]
  obtain w2 where b: "load_node E a2 True w1 = (Inr (end_turn m2 = null), w2)"
    "console w2 = console w1 @ [Console_success t2] @
       (if end_turn m2 = null then [] else [print []])"
    by auto
  from a b have merged: "console (snd (load_nodes E [a1, a2] mg w)) =
           console w @ (if mg then [] else [Console_success_b ''ChatGPT:'']) @
             [Console_success t1, Console_success t2] @
             (if end_turn m2 = null then [] else [print []])"
    by simp
  from load_node_assistant[OF assms(1,9,10,11), of E mg] assms(12)
  obtain w3 st3 where c: "load_node E b mg w = (Inr False, w3)" "state w3 = Some st3"
    "console w3 = console w @ (if mg then [] else [Console_success_b ''ChatGPT:'']) @
       [Console_success tb, print []]"
    by auto
  from load_node_user_console[OF c(2) assms(13,14,15), of E False]
  obtain w4 where d: "load_node E u False w3 = (Inr False, w4)"
    "console w4 = console w3 @ [Console_info_b ''You:'', Console_info tu, print []]"
    by auto
  from c d have "console (snd (load_nodes E [b, u] mg w)) =
           console w @ (if mg then [] else [Console_success_b ''ChatGPT:'']) @
             [Console_success tb, print [], Console_info_b ''You:'', Console_info tu, print []]"
    by simp
  with merged show ?thesis by blast
qed

text \<open>
  C2. The merge flag outlives a user turn. The flag is assigned in the assistant branch
  only, and the user branch reads it without having reset it. So an assistant node with
  \<open>end_turn\<close> null followed by a user node is rendered with no blank line between the two
  turns nor after the user turn, the flag is still set afterwards, and the assistant node
  that answers the user turn is printed without its heading, as if it continued the
  reply before the question.
\<close>

theorem merge_flag_outlives_user_turn:
  "fst (load_nodes ex_env [ex_soft_break, ex_question] False ex_old_world) = Inr True \<and>
   console (snd (load_nodes ex_env [ex_soft_break, ex_question] False ex_old_world)) =
     [Console_success_b ''ChatGPT:'', Console_success ''Part one'',
      Console_info_b ''You:'', Console_info ''Next question''] \<and>
   console (snd (load_nodes ex_env [ex_soft_break, ex_question, ex_resumed] False ex_old_world)) =
     [Console_success_b ''ChatGPT:'', Console_success ''Part one'',
      Console_info_b ''You:'', Console_info ''Next question'',
      Console_success ''Part two'', print []]"
  by code_simp

section \<open>Loading a conversation\<close>

lemma walk_chain: "chain m cur rs \<Longrightarrow> walk m cur acc = Some (Inr (rev rs @ acc))"
proof (induction rs arbitrary: cur acc)
  case Nil
  then show ?case
    by (subst walk.simps) (auto simp: truthy_def split: option.splits)
next
  case (Cons n rs)
  from Cons.prems obtain p where p: "m cur = Some n" "parent n = Some p" "p \<noteq> []" "chain m p rs"
    by (auto split: option.splits)
  from Cons.IH[OF p(4), of "n # acc"] p(1,2,3) show ?case
    by (subst walk.simps) simp
qed

lemma chain_parents: "chain m cur rs \<Longrightarrow> list_all (\<lambda>n. truthy (parent n)) rs"
proof (induction rs arbitrary: cur)
  case Nil
  then show ?case by simp
next
  case (Cons n rs)
  from Cons.prems obtain p where p: "parent n = Some p" "p \<noteq> []" "chain m p rs"
    by (auto split: option.splits)
  from p(1,2) have "truthy (parent n)" by (simp add: truthy_def)
  with Cons.IH[OF p(3)] show ?case by simp
qed

lemma load_node_user:
  assumes "state w = Some st" "node_message n = Some m" "role_of m = Inr ''user''"
    "parts m = t # ts" "truthy (parent n)"
  shows "\<exists>w' st'. load_node E n mg w = (Inr mg, w') \<and> state w' = Some st' \<and>
           user_prompt st' = user_prompt st \<and> chatgpt_prompt st' = chatgpt_prompt st \<and>
           user_prompts st' = user_prompts st @ [next_addr w] \<and>
           next_addr w' = Suc (next_addr w) \<and>
           (user_prompt st \<noteq> next_addr w \<longrightarrow>
              heap w' (next_addr w) = \<lparr>prompt = Some t, parent_id = parent n,
                 message_id = Some (uuid4 E (uuid_count w))\<rparr>) \<and>
           (\<forall>b. b \<noteq> next_addr w \<and> b \<noteq> user_prompt st \<longrightarrow> heap w' b = heap w b)"
  using assms
  by (auto simp: load_node_def Let_def say_def ChatPrompt_init_def or_gen_message_id_def
        gen_message_id_def truthy_def split: option.splits)

lemma load_node_other:
  assumes "state w = Some st" "node_message n = Some m" "role_of m = Inr r" "r \<noteq> ''user''"
    "r = ''assistant'' \<longrightarrow> parts m \<noteq> []"
  shows "\<exists>mg' w' st'. load_node E n mg w = (Inr mg', w') \<and> state w' = Some st' \<and>
           user_prompt st' = user_prompt st \<and> chatgpt_prompt st' = chatgpt_prompt st \<and>
           user_prompts st' = user_prompts st \<and> next_addr w' = next_addr w \<and>
           (\<forall>b. b \<noteq> chatgpt_prompt st \<longrightarrow> heap w' b = heap w b)"
  using assms
  by (auto simp: load_node_def Let_def say_def split: option.splits list.splits)

text \<open>One node: a user node adds its entry at the end of the history, any other adds none.\<close>

lemma load_node_history:
  assumes ok: "ok_node n" and par: "truthy (parent n)" and sep: "separate w st"
  shows "\<exists>mg' w' st'. load_node E n mg w = (Inr mg', w') \<and> separate w' st' \<and>
           history w' = history w @ map entry_of (filter is_user_node [n])"
proof -
  from sep have st: "state w = Some st" by (simp add: separate_def)
  from ok obtain m r where m: "node_message n = Some m" "role_of m = Inr r"
    "(r = ''user'' \<or> r = ''assistant'') \<longrightarrow> parts m \<noteq> []"
    by (auto simp: ok_node_def split: option.splits sum.splits)
  show ?thesis
  proof (cases "r = ''user''")
    case True
    with m obtain t ts where t: "parts m = t # ts" by (cases "parts m") auto
    from True m have u: "role_of m = Inr ''user''" by simp
    from load_node_user[OF st m(1) u t par, of E mg]
    obtain w' st' where l: "load_node E n mg w = (Inr mg, w')" "state w' = Some st'"
      "user_prompt st' = user_prompt st" "chatgpt_prompt st' = chatgpt_prompt st"
      "user_prompts st' = user_prompts st @ [next_addr w]" "next_addr w' = Suc (next_addr w)"
      "user_prompt st \<noteq> next_addr w \<longrightarrow>
         heap w' (next_addr w) = \<lparr>prompt = Some t, parent_id = parent n,
            message_id = Some (uuid4 E (uuid_count w))\<rparr>"
      "\<forall>b. b \<noteq> next_addr w \<and> b \<noteq> user_prompt st \<longrightarrow> heap w' b = heap w b"
      by blast
    from sep l have s': "separate w' st'" by (auto simp: separate_def)
    from sep have "\<forall>a \<in> set (user_prompts st). heap w' a = heap w a"
      using l(8) by (auto simp: separate_def)
    then have old: "map (\<lambda>a. (prompt (heap w' a), parent_id (heap w' a))) (user_prompts st) =
                    map (\<lambda>a. (prompt (heap w a), parent_id (heap w a))) (user_prompts st)"
      by simp
    from sep l(7) have new: "heap w' (next_addr w) = \<lparr>prompt = Some t, parent_id = parent n,
            message_id = Some (uuid4 E (uuid_count w))\<rparr>"
      by (auto simp: separate_def)
    from m(1) u t have e: "is_user_node n" "entry_of n = (Some t, parent n)"
      by (simp_all add: is_user_node_def entry_of_def node_text_def)
    from st l(2,5) old new e have "history w' = history w @ map entry_of (filter is_user_node [n])"
      by (simp add: history_def)
    with l(1) s' show ?thesis by blast
  next
    case False
    from load_node_other[OF st m(1,2) False, of E mg] m(3)
    obtain mg' w' st' where l: "load_node E n mg w = (Inr mg', w')" "state w' = Some st'"
      "user_prompt st' = user_prompt st" "chatgpt_prompt st' = chatgpt_prompt st"
      "user_prompts st' = user_prompts st" "next_addr w' = next_addr w"
      "\<forall>b. b \<noteq> chatgpt_prompt st \<longrightarrow> heap w' b = heap w b"
      by blast
    from sep l have s': "separate w' st'" by (auto simp: separate_def)
    from sep have "\<forall>a \<in> set (user_prompts st). heap w' a = heap w a"
      using l(7) by (auto simp: separate_def)
    then have old: "map (\<lambda>a. (prompt (heap w' a), parent_id (heap w' a))) (user_prompts st) =
                    map (\<lambda>a. (prompt (heap w a), parent_id (heap w a))) (user_prompts st)"
      by simp
    from False m(1,2) have e: "\<not> is_user_node n" by (simp add: is_user_node_def)
    from st l(2,5) old e have "history w' = history w @ map entry_of (filter is_user_node [n])"
      by (simp add: history_def)
    with l(1) s' show ?thesis by blast
  qed
qed

lemma load_nodes_history:
  assumes "list_all ok_node ns" "list_all (\<lambda>n. truthy (parent n)) ns" "separate w st"
  shows "\<exists>mg' w' st'. load_nodes E ns mg w = (Inr mg', w') \<and> separate w' st' \<and>
           history w' = history w @ map entry_of (filter is_user_node ns)"
  using assms
proof (induction ns arbitrary: mg w st)
  case Nil
  then show ?case by auto
next
  case (Cons n ns)
  from Cons.prems have ok: "ok_node n" and par: "truthy (parent n)"
    and oks: "list_all ok_node ns" and pars: "list_all (\<lambda>n. truthy (parent n)) ns"
    by simp_all
  from load_node_history[OF ok par Cons.prems(3), of E mg]
  obtain mg1 w1 st1 where s: "load_node E n mg w = (Inr mg1, w1)" "separate w1 st1"
    "history w1 = history w @ map entry_of (filter is_user_node [n])"
    by blast
  from Cons.IH[OF oks pars s(2), of mg1]
  obtain mg' w' st' where r: "load_nodes E ns mg1 w1 = (Inr mg', w')" "separate w' st'"
    "history w' = history w1 @ map entry_of (filter is_user_node ns)"
    by blast
  have "filter is_user_node (n # ns) = filter is_user_node [n] @ filter is_user_node ns"
    by simp
  with s r have "load_nodes E (n # ns) mg w = (Inr mg', w')"
    "history w' = history w @ map entry_of (filter is_user_node (n # ns))"
    by (simp_all del: filter.simps)
  with r(2) show ?case by blast
qed

text \<open>
  C8. The history that the loader builds. The conversation fetched is a single path:
  from the current node the parent links lead through the nodes \<open>rs\<close> (leaf first) to a
  node without parent. Every node of \<open>rs\<close> has a message with a role, and a first part
  when the role is user or assistant. Then the loader returns normally, and the history
  has one entry for each user node of \<open>rs\<close>, in the order from the root to the leaf, with
  the text of the node and the node's parent as \<open>parent_id\<close>. The node without parent is
  where the walk stops; it is not rendered and gives no entry, whatever its role.
\<close>

theorem loader_history:
  assumes "truthy cid"
    and "chain (mapping (get_conversation (api E) cid (token_key w)))
           (current_node (get_conversation (api E) cid (token_key w))) rs"
    and "list_all ok_node rs"
    and "fst (State_defaults w) < next_addr w" and "snd (State_defaults w) < next_addr w"
  shows "\<exists>w'. ChatBot_load_conversation E cid w = Some (Inr (), w') \<and>
           history w' = map entry_of (filter is_user_node (rev rs)) \<and>
           length (history w') = length (filter is_user_node rs)"
proof -
  let ?result = "get_conversation (api E) cid (token_key w)"
  let ?st0 = "State_init None cid None None None w"
  let ?w2 = "request (call_get_conversation cid (token_key w)) (w\<lparr>state := Some ?st0\<rparr>)"
  let ?st = "?st0\<lparr>title := Some (conv_title ?result)\<rparr>"
  let ?w4 = "print_conversation_title (conv_title ?result) (?w2\<lparr>state := Some ?st\<rparr>)"
  from walk_chain[OF assms(2), of "[]"]
  have wk: "walk (mapping ?result) (current_node ?result) [] = Some (Inr (rev rs))" by simp
  from assms(4,5) have sep: "separate ?w4 ?st"
    by (simp add: separate_def print_conversation_title_def say_def request_def State_init_def)
  have h0: "history ?w4 = []"
    by (simp add: history_def print_conversation_title_def say_def request_def State_init_def)
  from assms(3) have oks: "list_all ok_node (rev rs)" by (simp add: list_all_iff)
  from chain_parents[OF assms(2)] have pars: "list_all (\<lambda>n. truthy (parent n)) (rev rs)"
    by (simp add: list_all_iff)
  from load_nodes_history[OF oks pars sep, of E False] h0
  obtain mg' w' where l: "load_nodes E (rev rs) False ?w4 = (Inr mg', w')"
    "history w' = map entry_of (filter is_user_node (rev rs))"
    by auto
  from assms(1) wk l(1) have "ChatBot_load_conversation E cid w = Some (Inr (), w')"
    by (simp add: ChatBot_load_conversation_def Let_def request_def)
  moreover have "length (filter is_user_node (rev rs)) = length (filter is_user_node rs)"
    by (simp add: rev_filter[symmetric])
  ultimately show ?thesis using l(2) by simp
qed

text \<open>
  The claim counts every user node. In a path of two nodes, a user turn without parent and
  the assistant's answer to it, there is one user node and the loader's history is empty.
\<close>

theorem loader_history_counterexample:
  "fst (the (ChatBot_load_conversation ex_rooted_env (Some ''conv-1'')
               (import_module ex_rooted_env))) = Inr () \<and>
   user_prompts (the (state (snd (the (ChatBot_load_conversation ex_rooted_env (Some ''conv-1'')
      (import_module ex_rooted_env)))))) = [] \<and>
   length (filter is_user_node [ex_root_question, ex_answer]) = 1"
  by code_simp

theorem loader_history_witness:
  "truthy (Some ''conv-1'') \<and>
   chain (mapping (get_conversation (api ex_env) (Some ''conv-1'') (token_key (import_module ex_env))))
     (current_node (get_conversation (api ex_env) (Some ''conv-1'') (token_key (import_module ex_env))))
     [ex_n2, ex_n1] \<and>
   list_all ok_node [ex_n2, ex_n1] \<and>
   fst (State_defaults (import_module ex_env)) < next_addr (import_module ex_env) \<and>
   snd (State_defaults (import_module ex_env)) < next_addr (import_module ex_env) \<and>
   (\<exists>w'. ChatBot_load_conversation ex_env (Some ''conv-1'') (import_module ex_env) = Some (Inr (), w') \<and>
      history w' = [(Some ''Hi'', Some ''n0'')] \<and> length (history w') = 1)"
proof -
  have h1: "truthy (Some ''conv-1'')" by (simp add: truthy_def)
  have h2: "chain (mapping (get_conversation (api ex_env) (Some ''conv-1'') (token_key (import_module ex_env))))
     (current_node (get_conversation (api ex_env) (Some ''conv-1'') (token_key (import_module ex_env))))
     [ex_n2, ex_n1]"
    by (simp add: ex_env_def ex_api_def ex_conversation_def ex_n0_def ex_n1_def ex_n2_def truthy_def)
  have h3: "list_all ok_node [ex_n2, ex_n1]"
    by (simp add: ok_node_def ex_n1_def ex_n2_def mk_message_def role_of_def)
  have h4: "fst (State_defaults (import_module ex_env)) < next_addr (import_module ex_env)"
    by code_simp
  have h5: "snd (State_defaults (import_module ex_env)) < next_addr (import_module ex_env)"
    by code_simp
  have e: "map entry_of (filter is_user_node (rev [ex_n2, ex_n1])) = [(Some ''Hi'', Some ''n0'')]"
    by (simp add: is_user_node_def entry_of_def node_text_def ex_n1_def ex_n2_def mk_message_def
          role_of_def)
  have n: "length (filter is_user_node [ex_n2, ex_n1]) = 1"
    by (simp add: is_user_node_def ex_n1_def ex_n2_def mk_message_def role_of_def)
  from loader_history[OF h1 h2 h3 h4 h5] h1 h2 h3 h4 h5 e n show ?thesis by simp
qed


end
